theory Spec2Isabelle
  imports Main "HOL-Library.Char_ord" "HOL-Library.List_Lexorder" "HOL-Library.Multiset"
begin

section \<open>StreamHub: playlist ingestion, local store and paginated queries\<close>

text \<open>
  A shallow embedding of the TypeScript sources of the IPTV client: the M3U parser and the
  content classifier (\<^verbatim>\<open>lib/m3uParser\<close>), the Xtream adapter, the IndexedDB layer
  (\<^verbatim>\<open>lib/db.ts\<close>), the paginating hook \<^verbatim>\<open>useChannelsFromDB\<close>, the update branch of
  \<^verbatim>\<open>ImportModal.tsx\<close>, the application store (\<^verbatim>\<open>useStore\<close>) and the manifest
  rewriting of the stream proxy.

  JavaScript strings are modelled as \<^typ>\<open>string\<close>; a \<^typ>\<open>char\<close> stands for one UTF-16
  code unit below 256 (the Latin-1 range), so \<^verbatim>\<open>toLowerCase\<close>, \<^verbatim>\<open>trim\<close> and the
  regular expression classes are the restrictions of the JavaScript ones to that range.
  JavaScript numbers that the code treats as integers are \<^typ>\<open>int\<close>.
  Platform functions whose behaviour is not part of the repository (the URL parser behind
  \<^verbatim>\<open>new URL\<close>, \<^verbatim>\<open>crypto.randomUUID\<close>, the collation behind \<^verbatim>\<open>localeCompare\<close>, the
  network) are parameters of the functions that call them.
\<close>

subsection \<open>JavaScript string primitives\<close>

text \<open>The white space and line terminator code units below 256: what \<^verbatim>\<open>trim\<close> strips
  and what \<^verbatim>\<open>\s\<close> matches.\<close>

definition isWhiteSpace :: "char \<Rightarrow> bool" where
  "isWhiteSpace c = (c \<in> set [CHR 0x09, CHR 0x0A, CHR 0x0B, CHR 0x0C, CHR 0x0D, CHR 0x20, CHR 0xA0])"

definition trim :: "string \<Rightarrow> string" where
  "trim s = rev (dropWhile isWhiteSpace (rev (dropWhile isWhiteSpace s)))"

definition isDigit :: "char \<Rightarrow> bool" where
  "isDigit c = (CHR ''0'' \<le> c \<and> c \<le> CHR ''9'')"

definition isLower :: "char \<Rightarrow> bool" where
  "isLower c = (CHR ''a'' \<le> c \<and> c \<le> CHR ''z'')"

text \<open>\<^verbatim>\<open>toLowerCase\<close> on one code unit: A-Z, and the Latin-1 capitals U+00C0 to U+00DE
  except the multiplication sign U+00D7.\<close>

definition lowerChar :: "char \<Rightarrow> char" where
  "lowerChar c =
     (if (CHR ''A'' \<le> c \<and> c \<le> CHR ''Z'') \<or> (CHR 0xC0 \<le> c \<and> c \<le> CHR 0xDE \<and> c \<noteq> CHR 0xD7)
      then char_of (of_char c + (32::nat)) else c)"

definition toLowerCase :: "string \<Rightarrow> string" where
  "toLowerCase s = map lowerChar s"

fun startsWith :: "string \<Rightarrow> string \<Rightarrow> bool" where
  "startsWith s [] = True"
| "startsWith [] (p # ps) = False"
| "startsWith (c # cs) (p # ps) = (c = p \<and> startsWith cs ps)"

fun includes_str :: "string \<Rightarrow> string \<Rightarrow> bool" where
  "includes_str [] p = (p = [])"
| "includes_str (c # cs) p = (startsWith (c # cs) p \<or> includes_str cs p)"

text \<open>Decimal rendering of a number, as a template literal does for an integer.\<close>

fun string_of_nat :: "nat \<Rightarrow> string" where
  "string_of_nat n =
     (if n < 10 then [char_of (48 + n)]
      else string_of_nat (n div 10) @ [char_of (48 + n mod 10)])"

declare string_of_nat.simps [simp del]

definition string_of_int :: "int \<Rightarrow> string" where
  "string_of_int i = (if i < 0 then CHR ''-'' # string_of_nat (nat (- i)) else string_of_nat (nat i))"

subsection \<open>Data model (\<^verbatim>\<open>store/useStore\<close>)\<close>

datatype ContentType = Live | Movie | Series

definition contentTypeName :: "ContentType \<Rightarrow> string" where
  "contentTypeName t = (case t of Live \<Rightarrow> ''live'' | Movie \<Rightarrow> ''movie'' | Series \<Rightarrow> ''series'')"

text \<open>\<^verbatim>\<open>interface Channel\<close>. An optional property is an \<^typ>\<open>'a option\<close>; \<open>cid\<close> is the
  property \<^verbatim>\<open>id\<close>. \<open>originalUrl\<close> is written by the Xtream adapter.\<close>

record channel =
  cid :: string
  name :: string
  url :: string
  originalUrl :: "string option"
  logo :: "string option"
  group :: "string option"
  tvgId :: "string option"
  tvgName :: "string option"
  isFavorite :: "bool option"
  contentType :: ContentType
  year :: "string option"
  rating :: "string option"
  duration :: "string option"
  plot :: "string option"
  seriesId :: "string option"
  seriesName :: "string option"
  seasonNum :: "int option"
  episodeNum :: "int option"

datatype PlaylistType = M3u | Xtream

text \<open>\<^verbatim>\<open>interface Playlist\<close>; \<open>pid\<close>, \<open>pname\<close>, \<open>ptype\<close>, \<open>purl\<close> are its properties
  \<^verbatim>\<open>id\<close>, \<^verbatim>\<open>name\<close>, \<^verbatim>\<open>type\<close>, \<^verbatim>\<open>url\<close>.\<close>

record playlist =
  pid :: string
  pname :: string
  ptype :: PlaylistType
  purl :: "string option"
  xtreamUrl :: "string option"
  xtreamUser :: "string option"
  xtreamPass :: "string option"
  channels :: "channel list"
  lastUpdated :: int

subsection \<open>Favorites-preserving merge (\<^verbatim>\<open>ImportModal.tsx\<close>, update mode)\<close>

text \<open>
  \<^verbatim>\<open>const favoriteChannelIds = new Set(existingPlaylist.channels.filter(c => c.isFavorite).map(c => c.url));\<close>
  \<^verbatim>\<open>const channelsWithFavorites = filteredChannels.map(channel => ({...channel, isFavorite: favoriteChannelIds.has(channel.url)}));\<close>
  The same two statements stand in \<^verbatim>\<open>handleImportM3U\<close> and in \<^verbatim>\<open>handleImportXtream\<close>.
\<close>

definition favoriteChannelIds :: "channel list \<Rightarrow> string set" where
  "favoriteChannelIds existing = set (map url (filter (\<lambda>c. isFavorite c = Some True) existing))"

definition channelsWithFavorites :: "channel list \<Rightarrow> channel list \<Rightarrow> channel list" where
  "channelsWithFavorites existing filteredChannels =
     map (\<lambda>c. c\<lparr>isFavorite := Some (url c \<in> favoriteChannelIds existing)\<rparr>) filteredChannels"

definition plainChannel :: "string \<Rightarrow> string \<Rightarrow> string \<Rightarrow> ContentType \<Rightarrow> channel" where
  \<comment> \<open>An object with the required properties of \<^verbatim>\<open>Channel\<close> only.\<close>
  "plainChannel i n u t =
     \<lparr>cid = i, name = n, url = u, originalUrl = None, logo = None, group = None, tvgId = None,
      tvgName = None, isFavorite = None, contentType = t, year = None, rating = None,
      duration = None, plot = None, seriesId = None, seriesName = None, seasonNum = None,
      episodeNum = None\<rparr>"

subsection \<open>Regular expressions, as backtracking matchers\<close>

text \<open>
  A matcher maps the input to the list of ways a pattern can match a prefix of it, in the
  order in which a backtracking engine tries them; each way is the list of captured groups
  and the rest of the input. The result of a JavaScript match is the first way of the first
  start position that has one. No pattern of the sources nests capture groups, so the
  groups of a sequence are the groups of its parts in order.
\<close>

type_synonym matcher = "string \<Rightarrow> (string list \<times> string) list"

definition m_eps :: matcher where
  "m_eps s = [([], s)]"

definition m_char :: "(char \<Rightarrow> bool) \<Rightarrow> matcher" where
  "m_char P s = (case s of [] \<Rightarrow> [] | c # r \<Rightarrow> if P c then [([], r)] else [])"

definition m_seq :: "matcher \<Rightarrow> matcher \<Rightarrow> matcher" where
  "m_seq m1 m2 s = concat (map (\<lambda>(g1, r1). map (\<lambda>(g2, r2). (g1 @ g2, r2)) (m2 r1)) (m1 s))"

definition m_alt :: "matcher \<Rightarrow> matcher \<Rightarrow> matcher" where
  "m_alt m1 m2 s = m1 s @ m2 s"

definition m_opt :: "matcher \<Rightarrow> matcher" where
  \<comment> \<open>\<^verbatim>\<open>X?\<close>, greedy: with X first, then without.\<close>
  "m_opt m = m_alt m m_eps"

fun m_star :: "(char \<Rightarrow> bool) \<Rightarrow> matcher" where
  \<comment> \<open>\<^verbatim>\<open>[class]*\<close>, greedy: the longest run first.\<close>
  "m_star P [] = [([], [])]"
| "m_star P (c # r) = (if P c then m_star P r @ [([], c # r)] else [([], c # r)])"

definition m_plus :: "(char \<Rightarrow> bool) \<Rightarrow> matcher" where
  "m_plus P = m_seq (m_char P) (m_star P)"

fun m_lazy_plus :: "(char \<Rightarrow> bool) \<Rightarrow> matcher" where
  \<comment> \<open>\<^verbatim>\<open>[class]+?\<close>, lazy: the shortest run first.\<close>
  "m_lazy_plus P [] = []"
| "m_lazy_plus P (c # r) = (if P c then ([], r) # m_lazy_plus P r else [])"

definition m_group :: "matcher \<Rightarrow> matcher" where
  \<comment> \<open>A capture group: the text the inner pattern consumed.\<close>
  "m_group m s = map (\<lambda>(g, r). (g @ [take (length s - length r) s], r)) (m s)"

definition m_end :: matcher where
  \<comment> \<open>\<^verbatim>\<open>$\<close> without the multiline flag.\<close>
  "m_end s = (if s = [] then [([], [])] else [])"

definition lowerAscii :: "char \<Rightarrow> char" where
  "lowerAscii c = (if CHR ''A'' \<le> c \<and> c \<le> CHR ''Z'' then char_of (of_char c + (32::nat)) else c)"

definition ci_char :: "char \<Rightarrow> char \<Rightarrow> bool" where
  \<comment> \<open>A pattern character under the flag \<^verbatim>\<open>i\<close>; the patterns hold ASCII only.\<close>
  "ci_char p c = (lowerAscii c = lowerAscii p)"

definition m_lit_ci :: "string \<Rightarrow> matcher" where
  "m_lit_ci p = foldr (\<lambda>pc m. m_seq (m_char (ci_char pc)) m) p m_eps"

fun regex_search :: "matcher \<Rightarrow> string \<Rightarrow> (nat \<times> string list \<times> string) option" where
  \<comment> \<open>The leftmost match: its start index, its groups, the input after it.\<close>
  "regex_search m [] = (case m [] of [] \<Rightarrow> None | (g, r) # _ \<Rightarrow> Some (0, g, r))"
| "regex_search m (c # cs) =
     (case m (c # cs) of
        (g, r) # _ \<Rightarrow> Some (0, g, r)
      | [] \<Rightarrow> map_option (\<lambda>(i, g, r). (Suc i, g, r)) (regex_search m cs))"

definition regex_test :: "matcher \<Rightarrow> string \<Rightarrow> bool" where
  "regex_test m s = (regex_search m s \<noteq> None)"

definition regex_groups :: "matcher \<Rightarrow> string \<Rightarrow> string list option" where
  \<comment> \<open>\<^verbatim>\<open>s.match(re)\<close> without the flag \<^verbatim>\<open>g\<close>: the groups of the leftmost match.\<close>
  "regex_groups m s = map_option (\<lambda>(i, g, r). g) (regex_search m s)"

definition regex_groups_at_start :: "matcher \<Rightarrow> string \<Rightarrow> string list option" where
  \<comment> \<open>A pattern that starts with \<^verbatim>\<open>^\<close>: tried at index 0 only.\<close>
  "regex_groups_at_start m s = (case m s of [] \<Rightarrow> None | (g, r) # _ \<Rightarrow> Some g)"

definition regex_replace_first :: "matcher \<Rightarrow> string \<Rightarrow> string \<Rightarrow> string" where
  "regex_replace_first m rep s =
     (case regex_search m s of None \<Rightarrow> s | Some (i, g, r) \<Rightarrow> take i s @ rep @ r)"

function regex_replace_all :: "matcher \<Rightarrow> string \<Rightarrow> string \<Rightarrow> string" where
  \<comment> \<open>\<^verbatim>\<open>s.replace(re, rep)\<close> with the flag \<^verbatim>\<open>g\<close>, for a pattern that matches no empty string.\<close>
  "regex_replace_all m rep s =
     (case s of
        [] \<Rightarrow> []
      | c # cs \<Rightarrow>
          (case m s of
             [] \<Rightarrow> c # regex_replace_all m rep cs
           | (g, r) # _ \<Rightarrow>
               if length r < length s then rep @ regex_replace_all m rep r
               else c # regex_replace_all m rep cs))"
  by pat_completeness auto
termination
  by (relation "measure (\<lambda>(m, rep, s). length s)") auto

declare regex_replace_all.simps [simp del]

definition isSep :: "char \<Rightarrow> bool" where
  \<comment> \<open>\<^verbatim>\<open>[\s\-_]\<close>\<close>
  "isSep c = (isWhiteSpace c \<or> c = CHR ''-'' \<or> c = CHR ''_'')"

definition isLineTerminator :: "char \<Rightarrow> bool" where
  "isLineTerminator c = (c = CHR 0x0A \<or> c = CHR 0x0D)"

definition m_digits12 :: matcher where
  \<comment> \<open>\<^verbatim>\<open>\d{1,2}\<close>\<close>
  "m_digits12 = m_seq (m_char isDigit) (m_opt (m_char isDigit))"

definition re_season_episode :: matcher where
  \<comment> \<open>\<^verbatim>\<open>/s\d{1,2}[\s\-_]?e\d{1,2}/i\<close>\<close>
  "re_season_episode =
     m_seq (m_char (ci_char CHR ''s'')) (m_seq m_digits12 (m_seq (m_opt (m_char isSep))
       (m_seq (m_char (ci_char CHR ''e'')) m_digits12)))"

definition re_NxN :: matcher where
  \<comment> \<open>\<^verbatim>\<open>/\d{1,2}x\d{1,2}/i\<close>\<close>
  "re_NxN = m_seq m_digits12 (m_seq (m_char (ci_char CHR ''x'')) m_digits12)"

definition re_season_episode_groups :: matcher where
  \<comment> \<open>\<^verbatim>\<open>/s(\d{1,2})[\s\-_]?e(\d{1,2})/i\<close>\<close>
  "re_season_episode_groups =
     m_seq (m_char (ci_char CHR ''s'')) (m_seq (m_group m_digits12) (m_seq (m_opt (m_char isSep))
       (m_seq (m_char (ci_char CHR ''e'')) (m_group m_digits12))))"

definition re_NxN_groups :: matcher where
  \<comment> \<open>\<^verbatim>\<open>/(\d{1,2})x(\d{1,2})/i\<close>\<close>
  "re_NxN_groups = m_seq (m_group m_digits12) (m_seq (m_char (ci_char CHR ''x'')) (m_group m_digits12))"

definition re_series_name :: matcher where
  \<comment> \<open>\<^verbatim>\<open>/^(.+?)[\s\-_]*(?:s\d{1,2}[\s\-_]?e\d{1,2}|\d{1,2}x\d{1,2})/i\<close>, after the \<^verbatim>\<open>^\<close>\<close>
  "re_series_name =
     m_seq (m_group (m_lazy_plus (\<lambda>c. \<not> isLineTerminator c)))
       (m_seq (m_star isSep) (m_alt re_season_episode re_NxN))"

definition re_non_alnum_run :: matcher where
  \<comment> \<open>\<^verbatim>\<open>/[^a-z0-9]+/\<close>\<close>
  "re_non_alnum_run = m_plus (\<lambda>c. \<not> (isLower c \<or> isDigit c))"

definition stripEdgeHyphens :: "string \<Rightarrow> string" where
  \<comment> \<open>\<^verbatim>\<open>.replace(/^-+|-+$/g, '')\<close>: the first alternative can match at index 0 only, and
     does whenever the string starts with a hyphen; the second is tried from there on.\<close>
  "stripEdgeHyphens s =
     regex_replace_all (m_seq (m_plus (\<lambda>c. c = CHR ''-'')) m_end) [] (dropWhile (\<lambda>c. c = CHR ''-'') s)"

definition digitsValue :: "string \<Rightarrow> nat" where
  "digitsValue ds = foldl (\<lambda>a c. 10 * a + (of_char c - 48)) 0 ds"

text \<open>A JavaScript number is a double: an integer of more than 53 bits is rounded to 53
  significant bits, ties to even. (Beyond 20 digits \<^verbatim>\<open>parseInt\<close> may approximate further,
  and beyond the largest double the result is \<^verbatim>\<open>Infinity\<close>; both are outside this model.)\<close>

function bitLength :: "int \<Rightarrow> nat" where
  "bitLength n = (if n \<le> 0 then 0 else Suc (bitLength (n div 2)))"
  by pat_completeness auto
termination
  by (relation "measure nat") auto

declare bitLength.simps [simp del]

definition toDouble :: "int \<Rightarrow> int" where
  \<comment> \<open>The double nearest to a natural number; \<open>9007199254740992\<close> is \<open>2\<^sup>5\<^sup>3\<close>.\<close>
  "toDouble n =
     (if n < 9007199254740992 then n
      else (let e = bitLength n - 53; q = n div 2 ^ e; r = n mod 2 ^ e; half = 2 ^ (e - 1)
            in (if half < r \<or> (r = half \<and> odd q) then q + 1 else q) * 2 ^ e))"

definition parseInt10 :: "string \<Rightarrow> int option" where
  \<comment> \<open>\<^verbatim>\<open>parseInt(s, 10)\<close>; \<open>None\<close> is NaN.\<close>
  "parseInt10 s =
     (let s1 = dropWhile isWhiteSpace s;
          neg = (case s1 of [] \<Rightarrow> False | c # r \<Rightarrow> c = CHR ''-'');
          s2 = (case s1 of [] \<Rightarrow> [] | c # r \<Rightarrow> if c = CHR ''-'' \<or> c = CHR ''+'' then r else s1);
          ds = takeWhile isDigit s2
      in if ds = [] then None
         else Some (if neg then - toDouble (int (digitsValue ds)) else toDouble (int (digitsValue ds))))"

subsection \<open>Content classifier (\<^verbatim>\<open>detectContentType\<close>, \<^verbatim>\<open>parseSeriesInfo\<close>)\<close>

definition MOVIE_KEYWORDS :: "string list" where
  "MOVIE_KEYWORDS =
     [''filme'', ''filmes'', ''movie'', ''movies'', ''vod'', ''cinema'', ''4k filme'',
      ''lan'' @ [CHR 0xE7] @ ''amento'', ''lancamento'']"

definition SERIES_KEYWORDS :: "string list" where
  "SERIES_KEYWORDS =
     [''s'' @ [CHR 0xE9] @ ''rie'', ''series'', ''s'' @ [CHR 0xE9] @ ''ries'', ''serie'', ''temporada'',
      ''episodio'', ''epis'' @ [CHR 0xF3] @ ''dio'', ''s0'', ''e0'', ''season'', ''episode'']"

definition detectContentType :: "string \<Rightarrow> string \<Rightarrow> string \<Rightarrow> ContentType" where
  "detectContentType nm grp u =
     (let lowerName = toLowerCase nm; lowerGroup = toLowerCase grp; lowerUrl = toLowerCase u
      in if regex_test re_season_episode nm \<or> regex_test re_NxN nm then Series
         else if list_ex (includes_str lowerGroup) SERIES_KEYWORDS then Series
         else if list_ex (includes_str lowerGroup) MOVIE_KEYWORDS then Movie
         else if includes_str lowerUrl ''/movie/'' \<or> includes_str lowerUrl ''/vod/'' then Movie
         else if includes_str lowerUrl ''/series/'' then Series
         else if list_ex (includes_str lowerName) SERIES_KEYWORDS then Series
         else if list_ex (includes_str lowerName) MOVIE_KEYWORDS then Movie
         else Live)"

record series_info =
  si_seriesId :: "string option"
  si_seriesName :: "string option"
  si_seasonNum :: "int option"
  si_episodeNum :: "int option"

definition no_series_info :: series_info where
  "no_series_info = \<lparr>si_seriesId = None, si_seriesName = None, si_seasonNum = None, si_episodeNum = None\<rparr>"

definition parseSeriesInfo :: "string \<Rightarrow> series_info" where
  "parseSeriesInfo nm =
     (case (case regex_groups re_season_episode_groups nm of
              Some g \<Rightarrow> Some g
            | None \<Rightarrow> regex_groups re_NxN_groups nm) of
        None \<Rightarrow> no_series_info
      | Some g \<Rightarrow>
          (let seriesName' = (case regex_groups_at_start re_series_name nm of
                                None \<Rightarrow> nm
                              | Some gs \<Rightarrow> trim (gs ! 0));
               seriesId' = stripEdgeHyphens (regex_replace_all re_non_alnum_run ''-'' (toLowerCase seriesName'))
           in \<lparr>si_seriesId = Some seriesId', si_seriesName = Some seriesName',
               si_seasonNum = parseInt10 (g ! 0), si_episodeNum = parseInt10 (g ! 1)\<rparr>))"

subsection \<open>M3U parser (\<^verbatim>\<open>parseExtInf\<close>, \<^verbatim>\<open>isValidUrl\<close>, \<^verbatim>\<open>parseM3U\<close>)\<close>

text \<open>The \<^verbatim>\<open>Partial<Channel>\<close> that \<^verbatim>\<open>parseExtInf\<close> fills: the properties it can set.\<close>

record ext_inf =
  ext_name :: "string option"
  ext_group :: "string option"
  ext_tvgId :: "string option"
  ext_tvgName :: "string option"
  ext_logo :: "string option"
  ext_seriesId :: "string option"
  ext_seasonNum :: "int option"
  ext_episodeNum :: "int option"

definition dquote :: char where
  "dquote = CHR 0x22"

definition re_attribute :: "string \<Rightarrow> matcher" where
  \<comment> \<open>\<^verbatim>\<open>/key="([^"]*)"/i\<close>\<close>
  "re_attribute k =
     m_seq (m_lit_ci (k @ ''='' @ [dquote]))
       (m_seq (m_group (m_star (\<lambda>c. c \<noteq> dquote))) (m_char (\<lambda>c. c = dquote)))"

definition groupAt :: "string list \<Rightarrow> nat \<Rightarrow> string option" where
  \<comment> \<open>\<^verbatim>\<open>match[i]\<close> for \<open>i\<close> at least 1: \<^verbatim>\<open>undefined\<close> when the match has no such group.\<close>
  "groupAt g i = (if 1 \<le> i \<and> i \<le> length g then Some (g ! (i - 1)) else None)"

datatype js_error = JsError (err_name: string) (err_message: string)

definition callTrim :: "string option \<Rightarrow> js_error + string" where
  \<comment> \<open>\<^verbatim>\<open>v.trim()\<close>: a method call on \<^verbatim>\<open>undefined\<close> throws a \<^verbatim>\<open>TypeError\<close>.\<close>
  "callTrim v =
     (case v of
        None \<Rightarrow> Inl (JsError ''TypeError'' ''Cannot read properties of undefined'')
      | Some t \<Rightarrow> Inr (trim t))"

definition attributeMatch :: "string \<Rightarrow> string \<Rightarrow> string option" where
  \<comment> \<open>\<^verbatim>\<open>line.match(/key="([^"]*)"/i)\<close> and, when it is not \<^verbatim>\<open>null\<close>, its group 1.\<close>
  "attributeMatch k line =
     (case regex_groups (re_attribute k) line of None \<Rightarrow> None | Some g \<Rightarrow> groupAt g 1)"

definition re_name :: matcher where
  \<comment> \<open>\<^verbatim>\<open>/,([^,]+)$/\<close>\<close>
  "re_name = m_seq (m_char (\<lambda>c. c = CHR '','')) (m_seq (m_group (m_plus (\<lambda>c. c \<noteq> CHR '',''))) m_end)"

definition extInfName :: "string \<Rightarrow> js_error + string option" where
  \<comment> \<open>\<^verbatim>\<open>if (nameMatch) channel.name = nameMatch[1].trim()\<close>: the one statement of
     \<^verbatim>\<open>parseExtInf\<close> that calls a method on a value read from a match.\<close>
  "extInfName line =
     (case regex_groups re_name line of
        None \<Rightarrow> Inr None
      | Some g \<Rightarrow> (case callTrim (groupAt g 1) of Inl e \<Rightarrow> Inl e | Inr t \<Rightarrow> Inr (Some t)))"

definition parseExtInf :: "string \<Rightarrow> js_error + ext_inf" where
  \<comment> \<open>\<open>Inl\<close> when the function throws.\<close>
  "parseExtInf line =
     (let tvgSeriesIdMatch = attributeMatch ''tvg-series-id'' line;
          tvgSerieMatch = attributeMatch ''tvg-serie'' line;
          tvgSeasonMatch = attributeMatch ''tvg-season'' line;
          tvgEpisodeMatch = attributeMatch ''tvg-episode'' line
      in case extInfName line of
           Inl e \<Rightarrow> Inl e
         | Inr name' \<Rightarrow>
             Inr \<lparr>ext_name = name',
                  ext_group = attributeMatch ''group-title'' line,
                  ext_tvgId = attributeMatch ''tvg-id'' line,
                  ext_tvgName = attributeMatch ''tvg-name'' line,
                  ext_logo = attributeMatch ''tvg-logo'' line,
                  ext_seriesId = (case tvgSeriesIdMatch of Some v \<Rightarrow> Some v | None \<Rightarrow> tvgSerieMatch),
                  ext_seasonNum = (case tvgSeasonMatch of None \<Rightarrow> None | Some v \<Rightarrow> parseInt10 v),
                  ext_episodeNum = (case tvgEpisodeMatch of None \<Rightarrow> None | Some v \<Rightarrow> parseInt10 v)\<rparr>)"

text \<open>\<^verbatim>\<open>new URL(str).protocol\<close> is the parameter \<open>urlProtocol\<close>: \<open>None\<close> when the
  constructor throws.\<close>

definition isValidUrl :: "(string \<Rightarrow> string option) \<Rightarrow> string \<Rightarrow> bool" where
  "isValidUrl urlProtocol str =
     (case urlProtocol str of
        None \<Rightarrow> False
      | Some protocol \<Rightarrow> protocol = ''http:'' \<or> protocol = ''https:'' \<or> protocol = ''rtmp:'')"

text \<open>The operator \<^verbatim>\<open>||\<close> on an optional string and on an optional number: the empty
  string, \<^verbatim>\<open>0\<close> and \<^verbatim>\<open>undefined\<close> are falsy.\<close>

definition or_string :: "string option \<Rightarrow> string option \<Rightarrow> string option" where
  "or_string a b = (case a of None \<Rightarrow> b | Some v \<Rightarrow> if v = [] then b else Some v)"

definition or_number :: "int option \<Rightarrow> int option \<Rightarrow> int option" where
  "or_number a b = (case a of None \<Rightarrow> b | Some v \<Rightarrow> if v = 0 then b else Some v)"

record parse_state =
  ps_channels :: "channel list"
  ps_errors :: "string list"
  currentChannel :: "ext_inf option"
  lineNumber :: nat

definition emitChannel :: "(nat \<Rightarrow> string) \<Rightarrow> nat \<Rightarrow> ext_inf \<Rightarrow> string \<Rightarrow> channel" where
  \<comment> \<open>The object pushed for a URL line; \<open>randomUUID k\<close> is the result of the \<open>k\<close>-th call of
     \<^verbatim>\<open>crypto.randomUUID()\<close> of this parse.\<close>
  "emitChannel randomUUID k cur trimmed =
     (let name' = the (or_string (ext_name cur) (Some ''Unknown Channel''));
          group' = the (or_string (ext_group cur) (Some ''Uncategorized''));
          contentType' = detectContentType name' group' trimmed;
          seriesInfo = (if contentType' = Series then parseSeriesInfo name' else no_series_info)
      in \<lparr>cid = randomUUID k, name = name', url = trimmed, originalUrl = None,
          logo = ext_logo cur, group = Some group', tvgId = ext_tvgId cur, tvgName = ext_tvgName cur,
          isFavorite = None, contentType = contentType',
          year = None, rating = None, duration = None, plot = None,
          seriesId = or_string (ext_seriesId cur) (si_seriesId seriesInfo),
          seriesName = si_seriesName seriesInfo,
          seasonNum = or_number (ext_seasonNum cur) (si_seasonNum seriesInfo),
          episodeNum = or_number (ext_episodeNum cur) (si_episodeNum seriesInfo)\<rparr>)"

text \<open>One iteration of the loop of \<^verbatim>\<open>parseM3U\<close>. The call of \<^verbatim>\<open>parseExtInf\<close> in the
  \<^verbatim>\<open>try\<close> block is the parameter \<open>pe\<close>, \<open>Inl\<close> when it throws.\<close>

definition parseLine ::
  "(string \<Rightarrow> js_error + ext_inf) \<Rightarrow> (string \<Rightarrow> string option) \<Rightarrow> (nat \<Rightarrow> string)
    \<Rightarrow> parse_state \<Rightarrow> string \<Rightarrow> parse_state" where
  "parseLine pe urlProtocol randomUUID st0 line =
     (let st = st0\<lparr>lineNumber := lineNumber st0 + 1\<rparr>; trimmed = trim line
      in if trimmed = [] \<or> trimmed = ''#EXTM3U'' then st
         else if startsWith trimmed ''#EXTINF:'' then
           (case pe trimmed of
              Inr ch \<Rightarrow> st\<lparr>currentChannel := Some ch\<rparr>
            | Inl e \<Rightarrow>
                st\<lparr>ps_errors := ps_errors st @
                      [''Line '' @ string_of_nat (lineNumber st) @ '': Failed to parse EXTINF''],
                   currentChannel := None\<rparr>)
         else if startsWith trimmed ''#EXTVLCOPT:'' \<or> startsWith trimmed ''#EXTGRP:'' then
           (case currentChannel st of
              None \<Rightarrow> st
            | Some cur \<Rightarrow>
                if startsWith trimmed ''#EXTGRP:''
                then st\<lparr>currentChannel := Some (cur\<lparr>ext_group := Some (trim (drop 8 trimmed))\<rparr>)\<rparr>
                else st)
         else if \<not> startsWith trimmed ''#'' then
           (case currentChannel st of
              None \<Rightarrow> st\<lparr>currentChannel := None\<rparr>
            | Some cur \<Rightarrow>
                if isValidUrl urlProtocol trimmed
                then st\<lparr>ps_channels := ps_channels st @
                            [emitChannel randomUUID (length (ps_channels st)) cur trimmed],
                        currentChannel := None\<rparr>
                else st\<lparr>currentChannel := None\<rparr>)
         else st)"

fun splitLinesFrom :: "string \<Rightarrow> string \<Rightarrow> string list" where
  \<comment> \<open>\<^verbatim>\<open>content.split(/\r?\n/)\<close>; the first argument is the line read so far, reversed.\<close>
  "splitLinesFrom acc [] = [rev acc]"
| "splitLinesFrom acc [c] = (if c = CHR 0x0A then [rev acc, []] else [rev (c # acc)])"
| "splitLinesFrom acc (c # d # r) =
     (if c = CHR 0x0A then rev acc # splitLinesFrom [] (d # r)
      else if c = CHR 0x0D \<and> d = CHR 0x0A then rev acc # splitLinesFrom [] r
      else splitLinesFrom (c # acc) (d # r))"

definition splitLines :: "string \<Rightarrow> string list" where
  "splitLines content = splitLinesFrom [] content"

definition initialParseState :: parse_state where
  "initialParseState = \<lparr>ps_channels = [], ps_errors = [], currentChannel = None, lineNumber = 0\<rparr>"

definition parseLines ::
  "(string \<Rightarrow> js_error + ext_inf) \<Rightarrow> (string \<Rightarrow> string option) \<Rightarrow> (nat \<Rightarrow> string)
    \<Rightarrow> parse_state \<Rightarrow> string list \<Rightarrow> parse_state" where
  "parseLines pe urlProtocol randomUUID st ls = foldl (parseLine pe urlProtocol randomUUID) st ls"

definition parseM3U_with ::
  "(string \<Rightarrow> js_error + ext_inf) \<Rightarrow> (string \<Rightarrow> string option) \<Rightarrow> (nat \<Rightarrow> string)
    \<Rightarrow> string \<Rightarrow> channel list \<times> string list" where
  "parseM3U_with pe urlProtocol randomUUID content =
     (let st = parseLines pe urlProtocol randomUUID initialParseState (splitLines content)
      in (ps_channels st, ps_errors st))"

text \<open>\<^verbatim>\<open>parseM3U\<close> itself: the call in the \<^verbatim>\<open>try\<close> block is \<^verbatim>\<open>parseExtInf\<close>.\<close>

definition parseM3U :: "(string \<Rightarrow> string option) \<Rightarrow> (nat \<Rightarrow> string) \<Rightarrow> string \<Rightarrow> channel list \<times> string list" where
  "parseM3U urlProtocol randomUUID content = parseM3U_with parseExtInf urlProtocol randomUUID content"

subsection \<open>Xtream adapter (\<^verbatim>\<open>fetchXtreamChannels\<close>)\<close>

text \<open>A scalar of a JSON document, as the adapter reads the account block.\<close>

datatype jval = JUndefined | JNull | JBool bool | JNum int | JStr string

definition truthy :: "jval \<Rightarrow> bool" where
  "truthy v = (case v of JUndefined \<Rightarrow> False | JNull \<Rightarrow> False | JBool b \<Rightarrow> b
                 | JNum n \<Rightarrow> n \<noteq> 0 | JStr t \<Rightarrow> t \<noteq> [])"

definition js_string :: "jval \<Rightarrow> string" where
  \<comment> \<open>The string a template literal or \<^verbatim>\<open>new Error(v)\<close> makes of a scalar.\<close>
  "js_string v = (case v of JUndefined \<Rightarrow> ''undefined'' | JNull \<Rightarrow> ''null''
                    | JBool b \<Rightarrow> (if b then ''true'' else ''false'')
                    | JNum n \<Rightarrow> string_of_int n | JStr t \<Rightarrow> t)"

record user_info =
  auth :: jval
  status :: jval
  max_connections :: jval
  active_cons :: jval

record auth_data =
  auth_user_info :: "user_info option"
  auth_error :: jval
  auth_message :: jval

record xtream_category =
  category_id :: string
  category_name :: string

record xtream_stream =
  stream_id :: int
  stream_name :: string
  stream_icon :: string
  stream_category_id :: string

record xtream_vod =
  vod_stream_id :: int
  vod_name :: string
  vod_stream_icon :: string
  vod_category_id :: string
  vod_rating :: "string option"
  vod_plot :: "string option"
  vod_releaseDate :: "string option"
  vod_container_extension :: "string option"

record xtream_series =
  series_id :: int
  series_name :: string
  series_cover :: string
  series_category_id :: string
  series_rating :: "string option"
  series_plot :: "string option"

text \<open>What \<^verbatim>\<open>fetchFromXtreamProxy\<close> returns for each of the seven requests of
  \<^verbatim>\<open>fetchXtreamChannels\<close>: \<open>Inl\<close> when it throws, \<open>None\<close> for a list that is
  \<^verbatim>\<open>null\<close>. The authentication response is a JSON object. The two requests of a pair run
  concurrently; \<open>second_settles_first a\<close> tells whether, of the pair whose first action is
  \<open>a\<close>, the second request settles before the first. The stream and series identifiers are
  integers below 10^21 in absolute value, which JavaScript prints in decimal notation.\<close>

record xtream_server =
  resp_auth :: "js_error + auth_data"
  resp_live_categories :: "js_error + xtream_category list option"
  resp_live_streams :: "js_error + xtream_stream list option"
  resp_vod_categories :: "js_error + xtream_category list option"
  resp_vod_streams :: "js_error + xtream_vod list option"
  resp_series_categories :: "js_error + xtream_category list option"
  resp_series :: "js_error + xtream_series list option"
  second_settles_first :: "string \<Rightarrow> bool"

record XtreamCredentials =
  cred_url :: string
  cred_username :: string
  cred_password :: string

text \<open>What the function does that a caller can observe besides its result: the requests
  (by their \<^verbatim>\<open>action\<close> parameter, \<open>None\<close> for the authentication request) and the
  progress callbacks, in order.\<close>

datatype event = Request "string option" | Progress string

type_synonym 'a traced = "event list \<times> (js_error + 'a)"

definition bind_traced :: "'a traced \<Rightarrow> ('a \<Rightarrow> 'b traced) \<Rightarrow> 'b traced" where
  "bind_traced m f =
     (case m of
        (t, Inl e) \<Rightarrow> (t, Inl e)
      | (t, Inr a) \<Rightarrow> (case f a of (t', r) \<Rightarrow> (t @ t', r)))"

definition request :: "string option \<Rightarrow> js_error + 'a \<Rightarrow> 'a traced" where
  "request action resp = ([Request action], resp)"

definition promiseAll2 :: "bool \<Rightarrow> string \<Rightarrow> js_error + 'a \<Rightarrow> string \<Rightarrow> js_error + 'b \<Rightarrow> ('a \<times> 'b) traced" where
  \<comment> \<open>\<^verbatim>\<open>await Promise.all([fetch a1, fetch a2])\<close>: both requests are sent, and the first
     rejection to arrive is the one thrown; \<open>secondFirst\<close> tells which request settles first.\<close>
  "promiseAll2 secondFirst a1 r1 a2 r2 =
     ([Request (Some a1), Request (Some a2)],
      (case (r1, r2) of
         (Inr x, Inr y) \<Rightarrow> Inr (x, y)
       | (Inl e1, Inr y) \<Rightarrow> Inl e1
       | (Inr x, Inl e2) \<Rightarrow> Inl e2
       | (Inl e1, Inl e2) \<Rightarrow> Inl (if secondFirst then e2 else e1)))"

definition onProgress :: "string \<Rightarrow> unit traced" where
  "onProgress msg = ([Progress msg], Inr ())"

definition throw :: "string \<Rightarrow> 'a traced" where
  \<comment> \<open>\<^verbatim>\<open>throw new Error(msg)\<close>\<close>
  "throw msg = ([], Inl (JsError ''Error'' msg))"

definition checkAccount :: "(jval \<Rightarrow> jval \<Rightarrow> bool) \<Rightarrow> auth_data \<Rightarrow> unit traced" where
  \<comment> \<open>The checks on the authentication response; \<open>js_ge\<close> is the operator \<^verbatim>\<open>>=\<close>.\<close>
  "checkAccount js_ge authData =
     bind_traced
       (case auth_user_info authData of
          None \<Rightarrow> ([], Inr ())
        | Some userInfo \<Rightarrow>
            if auth userInfo = JNum 0 then throw ''Authentication failed: Invalid username or password''
            else if status userInfo = JStr ''Expired'' then throw ''Account expired. Please renew your subscription.''
            else if status userInfo = JStr ''Banned'' then throw ''Account has been banned.''
            else if status userInfo = JStr ''Disabled'' then throw ''Account is disabled.''
            else if truthy (max_connections userInfo) \<and> js_ge (active_cons userInfo) (max_connections userInfo)
            then throw (''Max connections reached ('' @ js_string (active_cons userInfo) @ ''/''
                        @ js_string (max_connections userInfo) @ ''). Close other streams and try again.'')
            else ([], Inr ()))
       (\<lambda>_. if truthy (auth_error authData) then throw (js_string (auth_error authData))
            else if truthy (auth_message authData) then throw (js_string (auth_message authData))
            else ([], Inr ()))"

definition hexDigit :: "nat \<Rightarrow> char" where
  "hexDigit n = (if n < 10 then char_of (48 + n) else char_of (55 + n))"

definition percentByte :: "nat \<Rightarrow> string" where
  "percentByte b = [CHR ''%'', hexDigit (b div 16), hexDigit (b mod 16)]"

definition isUnreserved :: "char \<Rightarrow> bool" where
  "isUnreserved c =
     (isLower c \<or> (CHR ''A'' \<le> c \<and> c \<le> CHR ''Z'') \<or> isDigit c \<or> c \<in> set ''-_.!~*'()'')"

definition encodeChar :: "char \<Rightarrow> string" where
  \<comment> \<open>A code unit below 128 is one UTF-8 byte, one from 128 to 255 is two.\<close>
  "encodeChar c =
     (let n = (of_char c :: nat)
      in if isUnreserved c then [c]
         else if n < 128 then percentByte n
         else percentByte (192 + n div 64) @ percentByte (128 + n mod 64))"

definition encodeURIComponent :: "string \<Rightarrow> string" where
  "encodeURIComponent t = concat (map encodeChar t)"

definition createStreamUrl :: "string \<Rightarrow> string \<Rightarrow> string" where
  "createStreamUrl STREAM_PROXY_URL originalUrl' = STREAM_PROXY_URL @ ''?url='' @ encodeURIComponent originalUrl'"

definition stripTrailingSlash :: "string \<Rightarrow> string" where
  \<comment> \<open>\<^verbatim>\<open>creds.url.replace(/\/$/, '')\<close>\<close>
  "stripTrailingSlash t = regex_replace_first (m_seq (m_char (\<lambda>c. c = CHR ''/'')) m_end) [] t"

definition categoryMap :: "xtream_category list option \<Rightarrow> string \<Rightarrow> string option" where
  \<comment> \<open>\<^verbatim>\<open>new Map((categories || []).map(c => [c.category_id, c.category_name]))\<close>: a later
     entry with the same key wins.\<close>
  "categoryMap cats = map_of (rev (map (\<lambda>c. (category_id c, category_name c)) (case cats of None \<Rightarrow> [] | Some cs \<Rightarrow> cs)))"

definition liveChannel :: "string \<Rightarrow> string \<Rightarrow> XtreamCredentials \<Rightarrow> (string \<Rightarrow> string option) \<Rightarrow> string \<Rightarrow> xtream_stream \<Rightarrow> channel" where
  "liveChannel STREAM_PROXY_URL baseUrl creds catMap uuid st =
     (let originalUrl' = baseUrl @ ''/live/'' @ cred_username creds @ ''/'' @ cred_password creds @ ''/''
                          @ string_of_int (stream_id st) @ ''.m3u8''
      in (plainChannel uuid (stream_name st) (createStreamUrl STREAM_PROXY_URL originalUrl') Live)
           \<lparr>originalUrl := Some originalUrl', logo := Some (stream_icon st),
            group := or_string (catMap (stream_category_id st)) (Some ''Live TV''),
            tvgId := Some (string_of_int (stream_id st))\<rparr>)"

definition vodChannel :: "string \<Rightarrow> string \<Rightarrow> XtreamCredentials \<Rightarrow> (string \<Rightarrow> string option) \<Rightarrow> string \<Rightarrow> xtream_vod \<Rightarrow> channel" where
  "vodChannel STREAM_PROXY_URL baseUrl creds catMap uuid vod =
     (let ext = the (or_string (vod_container_extension vod) (Some ''mp4''));
          originalUrl' = baseUrl @ ''/movie/'' @ cred_username creds @ ''/'' @ cred_password creds @ ''/''
                          @ string_of_int (vod_stream_id vod) @ ''.'' @ ext
      in (plainChannel uuid (vod_name vod) (createStreamUrl STREAM_PROXY_URL originalUrl') Movie)
           \<lparr>originalUrl := Some originalUrl', logo := Some (vod_stream_icon vod),
            group := or_string (catMap (vod_category_id vod)) (Some ''Movies''),
            tvgId := Some (string_of_int (vod_stream_id vod)),
            rating := vod_rating vod, plot := vod_plot vod,
            year := map_option (take 4) (vod_releaseDate vod)\<rparr>)"

definition seriesChannel :: "(string \<Rightarrow> string option) \<Rightarrow> string \<Rightarrow> xtream_series \<Rightarrow> channel" where
  "seriesChannel catMap uuid ser =
     (plainChannel uuid (series_name ser) [] Series)
        \<lparr>logo := Some (series_cover ser),
         group := or_string (catMap (series_category_id ser)) (Some ''Series''),
         tvgId := Some (string_of_int (series_id ser)),
         seriesId := Some (string_of_int (series_id ser)),
         rating := series_rating ser, plot := series_plot ser\<rparr>"

definition orEmpty :: "'a list option \<Rightarrow> 'a list" where
  \<comment> \<open>\<^verbatim>\<open>(list || [])\<close>\<close>
  "orEmpty l = (case l of None \<Rightarrow> [] | Some xs \<Rightarrow> xs)"

definition fetchAllFamilies ::
  "string \<Rightarrow> (nat \<Rightarrow> string) \<Rightarrow> (jval \<Rightarrow> jval \<Rightarrow> bool) \<Rightarrow> xtream_server \<Rightarrow> XtreamCredentials \<Rightarrow> channel list traced" where
  \<comment> \<open>The \<^verbatim>\<open>try\<close> block of \<^verbatim>\<open>fetchXtreamChannels\<close>; its result is \<^verbatim>\<open>allChannels\<close>.
     \<open>randomUUID k\<close> is the identifier of the \<open>k\<close>-th channel pushed.\<close>
  "fetchAllFamilies STREAM_PROXY_URL randomUUID js_ge srv creds =
     (let baseUrl = stripTrailingSlash (cred_url creds)
      in bind_traced (request None (resp_auth srv)) (\<lambda>authData.
         bind_traced (checkAccount js_ge authData) (\<lambda>_.
         bind_traced (onProgress ''Fetching live channels...'') (\<lambda>_.
         bind_traced (promiseAll2 (second_settles_first srv ''get_live_categories'') ''get_live_categories'' (resp_live_categories srv)
                                  ''get_live_streams'' (resp_live_streams srv)) (\<lambda>(liveCategories, liveStreams).
         let live = map (\<lambda>(k, st). liveChannel STREAM_PROXY_URL baseUrl creds (categoryMap liveCategories) (randomUUID k) st)
                        (enumerate 0 (orEmpty liveStreams))
         in
         bind_traced (onProgress (''Found '' @ string_of_nat (length live) @ '' live channels. Fetching movies...'')) (\<lambda>_.
         bind_traced (promiseAll2 (second_settles_first srv ''get_vod_categories'') ''get_vod_categories'' (resp_vod_categories srv)
                                  ''get_vod_streams'' (resp_vod_streams srv)) (\<lambda>(vodCategories, vodStreams).
         let vods = map (\<lambda>(k, v). vodChannel STREAM_PROXY_URL baseUrl creds (categoryMap vodCategories) (randomUUID k) v)
                        (enumerate (length live) (orEmpty vodStreams))
         in
         bind_traced (onProgress (''Found '' @ string_of_nat (length (live @ vods)) @ '' channels. Fetching series...'')) (\<lambda>_.
         bind_traced (promiseAll2 (second_settles_first srv ''get_series_categories'') ''get_series_categories'' (resp_series_categories srv)
                                  ''get_series'' (resp_series srv)) (\<lambda>(seriesCategories, seriesList).
         let sers = map (\<lambda>(k, sr). seriesChannel (categoryMap seriesCategories) (randomUUID k) sr)
                        (enumerate (length (live @ vods)) (orEmpty seriesList))
         in ([], Inr (live @ vods @ sers)))))))))))"

definition rethrow :: "js_error \<Rightarrow> js_error" where
  \<comment> \<open>The \<^verbatim>\<open>catch\<close> block: every error the body throws is an \<^verbatim>\<open>Error\<close> object.\<close>
  "rethrow e =
     (if includes_str (err_message e) ''quota'' \<or> err_name e = ''QuotaExceededError''
      then JsError ''Error'' ''Browser storage is full. Try clearing site data or using a different browser.''
      else e)"

definition fetchXtreamChannels ::
  "string \<Rightarrow> (nat \<Rightarrow> string) \<Rightarrow> (jval \<Rightarrow> jval \<Rightarrow> bool) \<Rightarrow> xtream_server \<Rightarrow> XtreamCredentials \<Rightarrow> channel list traced" where
  "fetchXtreamChannels STREAM_PROXY_URL randomUUID js_ge srv creds =
     (case fetchAllFamilies STREAM_PROXY_URL randomUUID js_ge srv creds of
        (t, Inl e) \<Rightarrow> (t, Inl (rethrow e))
      | (t, Inr allChannels) \<Rightarrow>
          if allChannels = []
          then (t, Inl (JsError ''Error'' ''No channels found. The account may have no active subscriptions.''))
          else (t, Inr allChannels))"

subsection \<open>Local store (\<^verbatim>\<open>lib/db.ts\<close>)\<close>

text \<open>
  A record of the object store \<^verbatim>\<open>channels\<close> is a \<^verbatim>\<open>Channel & { playlistId: string }\<close>;
  its key path is \<^verbatim>\<open>id\<close>. The object store is the list of its records in key order, which
  is the order in which \<^verbatim>\<open>getAll\<close> and a cursor of the index \<^verbatim>\<open>by-playlist\<close> (or
  \<^verbatim>\<open>by-playlist-type\<close>) visit the records of one index key.
\<close>

record stored_channel =
  chan :: channel
  playlistId :: string

record playlist_meta =
  meta_id :: string
  meta_name :: string
  meta_type :: PlaylistType
  meta_url :: "string option"
  meta_xtreamUrl :: "string option"
  meta_xtreamUser :: "string option"
  meta_xtreamPass :: "string option"
  meta_lastUpdated :: int
  channelCount :: nat

record database =
  db_playlists :: "playlist_meta list"
  db_channels :: "stored_channel list"

definition storedId :: "stored_channel \<Rightarrow> string" where
  "storedId r = cid (chan r)"

definition deleteChannel :: "string \<Rightarrow> stored_channel list \<Rightarrow> stored_channel list" where
  "deleteChannel k store = filter (\<lambda>r. storedId r \<noteq> k) store"

definition putChannel :: "stored_channel \<Rightarrow> stored_channel list \<Rightarrow> stored_channel list" where
  \<comment> \<open>\<^verbatim>\<open>channelStore.put(record)\<close>: replaces the record with the same key.\<close>
  "putChannel r store = insort_key storedId r (deleteChannel (storedId r) store)"

definition putPlaylist :: "playlist_meta \<Rightarrow> playlist_meta list \<Rightarrow> playlist_meta list" where
  "putPlaylist m store = insort_key meta_id m (filter (\<lambda>x. meta_id x \<noteq> meta_id m) store)"

definition byPlaylist :: "stored_channel list \<Rightarrow> string \<Rightarrow> stored_channel list" where
  \<comment> \<open>\<^verbatim>\<open>index('by-playlist').getAll(playlistId)\<close>\<close>
  "byPlaylist store p = filter (\<lambda>r. playlistId r = p) store"

definition byPlaylistType :: "stored_channel list \<Rightarrow> string \<Rightarrow> string \<Rightarrow> stored_channel list" where
  \<comment> \<open>\<^verbatim>\<open>index('by-playlist-type').getAll(IDBKeyRange.only([playlistId, contentType]))\<close>\<close>
  "byPlaylistType store p t =
     filter (\<lambda>r. playlistId r = p \<and> contentTypeName (contentType (chan r)) = t) store"

definition deleteByCursor :: "string \<Rightarrow> stored_channel list \<Rightarrow> stored_channel list" where
  \<comment> \<open>The cursor loop over the index \<^verbatim>\<open>by-playlist\<close>: each record it visits is deleted
     by its key.\<close>
  "deleteByCursor p store = fold (\<lambda>r st. deleteChannel (storedId r) st) (byPlaylist store p) store"

definition BATCH_SIZE :: nat where
  "BATCH_SIZE = 1000"

function saveBatches :: "string \<Rightarrow> channel list \<Rightarrow> nat \<Rightarrow> stored_channel list \<Rightarrow> stored_channel list" where
  \<comment> \<open>\<^verbatim>\<open>for (let i = 0; i < channels.length; i += BATCH_SIZE)\<close>, from \<open>i\<close> on.\<close>
  "saveBatches p chs i store =
     (if i < length chs
      then saveBatches p chs (i + BATCH_SIZE)
             (fold (\<lambda>c st. putChannel \<lparr>chan = c, playlistId = p\<rparr> st) (take BATCH_SIZE (drop i chs)) store)
      else store)"
  by pat_completeness auto
termination
  by (relation "measure (\<lambda>(p, chs, i, store). length chs - i)") (auto simp: BATCH_SIZE_def)

declare saveBatches.simps [simp del]

definition playlistMeta :: "playlist \<Rightarrow> playlist_meta" where
  \<comment> \<open>\<^verbatim>\<open>{...playlistMeta, channelCount: channels.length}\<close>\<close>
  "playlistMeta p =
     \<lparr>meta_id = pid p, meta_name = pname p, meta_type = ptype p, meta_url = purl p,
      meta_xtreamUrl = xtreamUrl p, meta_xtreamUser = xtreamUser p, meta_xtreamPass = xtreamPass p,
      meta_lastUpdated = lastUpdated p, channelCount = length (channels p)\<rparr>"

definition savePlaylist :: "playlist \<Rightarrow> bool \<Rightarrow> database \<Rightarrow> database" where
  \<comment> \<open>The second argument is \<^verbatim>\<open>options.replace\<close>. The transaction commits.\<close>
  "savePlaylist p replace db =
     (let store1 = (if replace then deleteByCursor (pid p) (db_channels db) else db_channels db)
      in \<lparr>db_playlists = putPlaylist (playlistMeta p) (db_playlists db),
          db_channels = saveBatches (pid p) (channels p) 0 store1\<rparr>)"

definition getPlaylists :: "database \<Rightarrow> playlist_meta list" where
  "getPlaylists db = db_playlists db"

record query_options =
  q_playlistId :: string
  q_searchQuery :: "string option"
  q_group :: "string option"
  q_isFavorite :: "bool option"
  q_contentType :: "string option"
  q_offset :: "nat option"
  q_limit :: "nat option"

definition filterChannels :: "query_options \<Rightarrow> database \<Rightarrow> stored_channel list" where
  \<comment> \<open>\<^verbatim>\<open>getChannels\<close> up to (not including) the final \<^verbatim>\<open>slice\<close>.\<close>
  "filterChannels opts db =
     (let all0 = (case q_contentType opts of
                    None \<Rightarrow> byPlaylist (db_channels db) (q_playlistId opts)
                  | Some t \<Rightarrow>
                      if t \<noteq> [] \<and> t \<noteq> ''all'' then byPlaylistType (db_channels db) (q_playlistId opts) t
                      else byPlaylist (db_channels db) (q_playlistId opts));
          all1 = (case q_group opts of
                    None \<Rightarrow> all0
                  | Some g \<Rightarrow>
                      if g \<noteq> [] \<and> g \<noteq> ''all'' then filter (\<lambda>c. group (chan c) = Some g) all0 else all0);
          all2 = (case q_isFavorite opts of
                    None \<Rightarrow> all1
                  | Some f \<Rightarrow> filter (\<lambda>c. isFavorite (chan c) = Some f) all1);
          all3 = (case q_searchQuery opts of
                    None \<Rightarrow> all2
                  | Some sq \<Rightarrow>
                      if sq \<noteq> [] then filter (\<lambda>c. includes_str (toLowerCase (name (chan c))) (toLowerCase sq)) all2
                      else all2)
      in all3)"

definition slice :: "nat \<Rightarrow> nat \<Rightarrow> 'a list \<Rightarrow> 'a list" where
  \<comment> \<open>\<^verbatim>\<open>xs.slice(a, b)\<close> for indices that are not negative.\<close>
  "slice a b xs = take (b - a) (drop a xs)"

definition getChannels :: "query_options \<Rightarrow> database \<Rightarrow> stored_channel list" where
  "getChannels opts db =
     (let offset = (case q_offset opts of None \<Rightarrow> 0 | Some n \<Rightarrow> n);
          limit = (case q_limit opts of None \<Rightarrow> 100 | Some n \<Rightarrow> n)
      in slice offset (offset + limit) (filterChannels opts db))"

subsection \<open>Query and pagination layer (\<^verbatim>\<open>useChannelsFromDB\<close>)\<close>







datatype content_filter = FilterAll | FilterType ContentType

definition filterName :: "content_filter \<Rightarrow> string" where
  "filterName f = (case f of FilterAll \<Rightarrow> ''all'' | FilterType t \<Rightarrow> contentTypeName t)"

text \<open>What the hook reads from the application store and from its options.\<close>

record hook_env =
  activePlaylist :: "string option"
  searchQuery :: string
  selectedGroup :: "string option"
  contentFilter :: content_filter
  pageSize :: nat

record fetch_params =
  fp_playlistId :: string
  fp_searchQuery :: string
  fp_selectedGroup :: string
  fp_contentFilter :: string

text \<open>The React state (\<open>hs_channels\<close>, \<open>hs_loading\<close>, \<open>hasMore\<close>, \<open>totalCount\<close>) and the
  refs of the hook. A call of \<^verbatim>\<open>loadMore\<close> reads the state of the render that created the
  callback; the callback is created anew whenever \<open>hasMore\<close> or a filter changes, so a call
  reads the state as it is when the call starts.\<close>

record hook_state =
  hs_channels :: "stored_channel list"
  hs_loading :: bool
  hasMore :: bool
  totalCount :: nat
  pageRef :: nat
  latestParamsRef :: fetch_params
  loadingRef :: bool
  sortedChannelsRef :: "stored_channel list"
  channelsFetchedRef :: bool


definition refresh :: "hook_state \<Rightarrow> hook_state" where
  "refresh st = st\<lparr>hs_channels := [], hasMore := True, pageRef := 0, sortedChannelsRef := [],
                   channelsFetchedRef := False\<rparr>"

definition currentParams :: "hook_env \<Rightarrow> string \<Rightarrow> fetch_params" where
  "currentParams env p =
     \<lparr>fp_playlistId = p, fp_searchQuery = searchQuery env,
      fp_selectedGroup = (case selectedGroup env of None \<Rightarrow> [] | Some g \<Rightarrow> g),
      fp_contentFilter = filterName (contentFilter env)\<rparr>"

definition nonEmpty :: "string \<Rightarrow> string option" where
  \<comment> \<open>\<^verbatim>\<open>s || undefined\<close>\<close>
  "nonEmpty t = (if t = [] then None else Some t)"

definition queryOptions :: "hook_env \<Rightarrow> string \<Rightarrow> query_options" where
  \<comment> \<open>The argument of the two calls of \<^verbatim>\<open>getChannels\<close> in \<^verbatim>\<open>loadMore\<close>.\<close>
  "queryOptions env p =
     \<lparr>q_playlistId = p,
      q_searchQuery = nonEmpty (searchQuery env),
      q_group = (if selectedGroup env = Some ''favorites'' then None
                 else (case selectedGroup env of None \<Rightarrow> None | Some g \<Rightarrow> nonEmpty g)),
      q_isFavorite = (if selectedGroup env = Some ''favorites'' then Some True else None),
      q_contentType = (if contentFilter env = FilterType Series then Some ''series''
                       else if contentFilter env = FilterAll then None
                       else Some (filterName (contentFilter env))),
      q_offset = Some 0,
      q_limit = Some 50000\<rparr>"



text \<open>A call of \<^verbatim>\<open>loadMore\<close> that has to read the store is suspended at
  \<^verbatim>\<open>await getChannels(...)\<close>: effects and other callbacks may run before it resumes. What
  the suspended call keeps is the variables of its closure (\<open>pl_env\<close>), the \<open>offset\<close> it
  computed, and the rows the read resolves with. The reads of the store succeed.\<close>

record pending_load =
  pl_env :: hook_env
  pl_offset :: nat
  pl_rows :: "stored_channel list"

definition finishLoad :: "hook_env \<Rightarrow> nat \<Rightarrow> hook_state \<Rightarrow> hook_state" where
  \<comment> \<open>The \<^verbatim>\<open>try\<close> block from \<^verbatim>\<open>const newChannels\<close> on, and the \<^verbatim>\<open>finally\<close> block.\<close>
  "finishLoad env offset st =
     (let newChannels = slice offset (offset + pageSize env) (sortedChannelsRef st);
          total = length (sortedChannelsRef st)
      in st\<lparr>totalCount := total,
            hasMore := (offset + length newChannels < total),
            hs_channels := hs_channels st @ newChannels,
            pageRef := pageRef st + 1,
            loadingRef := False,
            hs_loading := False\<rparr>)"

definition loadMoreBegin :: "hook_env \<Rightarrow> database \<Rightarrow> hook_state \<Rightarrow> hook_state \<times> pending_load option" where
  \<comment> \<open>A call of \<^verbatim>\<open>loadMore\<close> up to its first \<^verbatim>\<open>await\<close>, or to its end when it has none.\<close>
  "loadMoreBegin env db st =
     (case activePlaylist env of
        None \<Rightarrow> (st, None)
      | Some p \<Rightarrow>
          if loadingRef st \<or> \<not> hasMore st then (st, None)
          else if currentParams env p \<noteq> latestParamsRef st
          then (refresh (st\<lparr>latestParamsRef := currentParams env p\<rparr>), None)
          else
            (let st1 = st\<lparr>loadingRef := True, hs_loading := True\<rparr>;
                 offset = pageRef st1 * pageSize env
             in if \<not> channelsFetchedRef st1
                then (st1, Some \<lparr>pl_env = env, pl_offset = offset,
                                 pl_rows = getChannels (queryOptions env p) db\<rparr>)
                else (finishLoad env offset st1, None)))"




subsection \<open>Application store (\<^verbatim>\<open>useStore\<close>)\<close>

record app_state =
  playlists :: "playlist list"
  activePlaylistId :: "string option"

definition updatePlaylistChannels :: "string \<Rightarrow> channel list \<Rightarrow> int \<Rightarrow> app_state \<Rightarrow> app_state" where
  \<comment> \<open>The third argument is \<^verbatim>\<open>Date.now()\<close>.\<close>
  "updatePlaylistChannels i chs now st =
     st\<lparr>playlists := map (\<lambda>p. if pid p = i then p\<lparr>channels := chs, lastUpdated := now\<rparr> else p) (playlists st)\<rparr>"

definition fromMeta :: "playlist_meta \<Rightarrow> playlist" where
  "fromMeta m =
     \<lparr>pid = meta_id m, pname = meta_name m, ptype = meta_type m, purl = meta_url m,
      xtreamUrl = meta_xtreamUrl m, xtreamUser = meta_xtreamUser m, xtreamPass = meta_xtreamPass m,
      channels = [], lastUpdated = meta_lastUpdated m\<rparr>"

definition refreshPlaylists :: "js_error + playlist_meta list \<Rightarrow> app_state \<Rightarrow> app_state" where
  \<comment> \<open>The first argument is the outcome of \<^verbatim>\<open>await getDBPlaylists()\<close>; the \<^verbatim>\<open>catch\<close>
     block logs the error and returns.\<close>
  "refreshPlaylists outcome st =
     (case outcome of
        Inl e \<Rightarrow> st
      | Inr dbPlaylists \<Rightarrow>
          (let ps = map fromMeta dbPlaylists
           in st\<lparr>playlists := ps,
                 activePlaylistId := (case ps of [] \<Rightarrow> None | p # _ \<Rightarrow> Some (pid p))\<rparr>))"

definition existingPlaylist :: "app_state \<Rightarrow> string \<Rightarrow> playlist option" where
  \<comment> \<open>\<^verbatim>\<open>playlists.find(p => p.id === playlistToUpdate)\<close>\<close>
  "existingPlaylist st playlistToUpdate = find (\<lambda>p. pid p = playlistToUpdate) (playlists st)"

subsection \<open>Import of an Xtream playlist (\<^verbatim>\<open>handleImportXtream\<close>)\<close>

datatype ImportOption = ImportAll | ImportLive | ImportLiveMovies | ImportLiveSeries

definition filterChannelsByOption :: "ImportOption \<Rightarrow> channel list \<Rightarrow> channel list" where
  "filterChannelsByOption importOption chs =
     (case importOption of
        ImportLive \<Rightarrow> filter (\<lambda>c. contentType c = Live) chs
      | ImportLiveMovies \<Rightarrow> filter (\<lambda>c. contentType c = Live \<or> contentType c = Movie) chs
      | ImportLiveSeries \<Rightarrow> filter (\<lambda>c. contentType c = Live \<or> contentType c = Series) chs
      | ImportAll \<Rightarrow> chs)"

record import_form =
  form_playlistName :: string
  form_xtreamUrl :: string
  form_xtreamUser :: string
  form_xtreamPass :: string
  form_importOption :: ImportOption
  form_playlistToUpdate :: "string option"

definition handleImportXtream ::
  "string \<Rightarrow> (nat \<Rightarrow> string) \<Rightarrow> (jval \<Rightarrow> jval \<Rightarrow> bool) \<Rightarrow> xtream_server \<Rightarrow> string \<Rightarrow> int
    \<Rightarrow> import_form \<Rightarrow> app_state \<Rightarrow> database \<Rightarrow> database \<times> string option" where
  \<comment> \<open>What the handler does to the persistent store, and the message it passes to
     \<^verbatim>\<open>setError\<close>. \<open>newId\<close> is the \<^verbatim>\<open>crypto.randomUUID()\<close> of a new playlist, \<open>now\<close> is
     \<^verbatim>\<open>Date.now()\<close>; the write to the store succeeds.\<close>
  "handleImportXtream STREAM_PROXY_URL randomUUID js_ge srv newId now form st db =
     (if form_xtreamUrl form = [] \<or> form_xtreamUser form = [] \<or> form_xtreamPass form = []
      then (db, Some ''Please fill all fields'')
      else
        (case snd (fetchXtreamChannels STREAM_PROXY_URL randomUUID js_ge srv
                     \<lparr>cred_url = form_xtreamUrl form, cred_username = form_xtreamUser form,
                      cred_password = form_xtreamPass form\<rparr>) of
           Inl e \<Rightarrow>
             (db, Some (if includes_str (err_message e) ''Failed to fetch'' \<or> includes_str (err_message e) ''NetworkError''
                        then ''Cannot connect to server. Check if the URL is correct and the server is online.''
                        else err_message e))
         | Inr chs \<Rightarrow>
             if chs = [] then (db, Some ''No channels found'')
             else
               (let filteredChannels = filterChannelsByOption (form_importOption form) chs
                in if filteredChannels = [] then (db, Some ''No channels match the selected import option'')
                   else
                     (case (case form_playlistToUpdate form of
                              None \<Rightarrow> None
                            | Some i \<Rightarrow> if i = [] then None else existingPlaylist st i) of
                        Some existing \<Rightarrow>
                          (savePlaylist
                             (existing\<lparr>channels := channelsWithFavorites (channels existing) filteredChannels,
                                       lastUpdated := now\<rparr>) True db, None)
                      | None \<Rightarrow>
                          (savePlaylist
                             \<lparr>pid = newId,
                              pname = (if form_playlistName form = [] then ''Xtream Playlist'' else form_playlistName form),
                              ptype = Xtream, purl = None,
                              xtreamUrl = Some (form_xtreamUrl form), xtreamUser = Some (form_xtreamUser form),
                              xtreamPass = Some (form_xtreamPass form),
                              channels = filteredChannels, lastUpdated = now\<rparr> False db, None)))))"

subsection \<open>Stream proxy: manifest rewriting\<close>

text \<open>\<^verbatim>\<open>new URL(streamUrl)\<close>, read through its properties.\<close>

record parsed_url =
  protocol :: string
  host :: string
  pathname :: string

fun splitOn :: "char \<Rightarrow> string \<Rightarrow> string \<Rightarrow> string list" where
  \<comment> \<open>\<^verbatim>\<open>s.split(c)\<close>; the second argument is the piece read so far, reversed.\<close>
  "splitOn sep acc [] = [rev acc]"
| "splitOn sep acc (c # cs) = (if c = sep then rev acc # splitOn sep [] cs else splitOn sep (c # acc) cs)"

fun joinWith :: "char \<Rightarrow> string list \<Rightarrow> string" where
  "joinWith sep [] = []"
| "joinWith sep [l] = l"
| "joinWith sep (l # m # ls) = l @ sep # joinWith sep (m # ls)"

definition lastIndexOf :: "char \<Rightarrow> string \<Rightarrow> int" where
  "lastIndexOf c t = (if c \<in> set t then int (length t) - 1 - int (length (takeWhile (\<lambda>x. x \<noteq> c) (rev t))) else - 1)"

definition substringTo :: "int \<Rightarrow> string \<Rightarrow> string" where
  \<comment> \<open>\<^verbatim>\<open>s.substring(0, i)\<close>: a negative index counts as 0.\<close>
  "substringTo i t = take (nat i) t"

definition manifestBaseUrl :: "parsed_url \<Rightarrow> string" where
  "manifestBaseUrl originalUrl' =
     protocol originalUrl' @ ''//'' @ host originalUrl'
       @ substringTo (lastIndexOf CHR ''/'' (pathname originalUrl')) (pathname originalUrl')"

definition proxied :: "string \<Rightarrow> string \<Rightarrow> string" where
  \<comment> \<open>The first argument is the path of the endpoint: \<^verbatim>\<open>/api/proxy/stream\<close> in the routes,
     empty in the worker.\<close>
  "proxied endpoint u = endpoint @ ''?url='' @ encodeURIComponent u"

definition rewriteLine :: "string \<Rightarrow> parsed_url \<Rightarrow> string \<Rightarrow> string" where
  "rewriteLine endpoint originalUrl' line =
     (let trimmed = trim line
      in if trimmed = [] \<or> startsWith trimmed ''#'' then line
         else if startsWith trimmed ''http://'' \<or> startsWith trimmed ''https://''
         then proxied endpoint trimmed
         else if includes_str trimmed ''.m3u8'' \<or> includes_str trimmed ''.ts''
         then (let absoluteUrl = (if startsWith trimmed ''/''
                                  then protocol originalUrl' @ ''//'' @ host originalUrl' @ trimmed
                                  else manifestBaseUrl originalUrl' @ ''/'' @ trimmed)
               in proxied endpoint absoluteUrl)
         else line)"

definition rewriteManifest :: "string \<Rightarrow> parsed_url \<Rightarrow> string \<Rightarrow> string" where
  "rewriteManifest endpoint originalUrl' textContent =
     joinWith (CHR 0x0A) (map (rewriteLine endpoint originalUrl') (splitOn (CHR 0x0A) [] textContent))"

definition isHlsManifest :: "string \<Rightarrow> string \<Rightarrow> bool" where
  "isHlsManifest contentType' textContent =
     (includes_str contentType' ''mpegurl'' \<or> includes_str contentType' ''m3u8''
      \<or> includes_str textContent ''#EXTM3U'')"

definition proxyBody :: "string \<Rightarrow> parsed_url \<Rightarrow> string \<Rightarrow> string" where
  \<comment> \<open>The body of the response of \<^verbatim>\<open>GET\<close> for an upstream response that is \<^verbatim>\<open>ok\<close>.\<close>
  "proxyBody contentType' originalUrl' textContent =
     (if isHlsManifest contentType' textContent
      then rewriteManifest ''/api/proxy/stream'' originalUrl' textContent
      else textContent)"

subsection \<open>Vocabulary of the statements about the parser\<close>

definition extInfFails :: "(string \<Rightarrow> js_error + ext_inf) \<Rightarrow> string \<Rightarrow> bool" where
  \<comment> \<open>The line is a metadata line and parsing it throws.\<close>
  "extInfFails pe line = (startsWith (trim line) ''#EXTINF:'' \<and> isl (pe (trim line)))"

definition failureMessage :: "nat \<Rightarrow> string" where
  "failureMessage n = ''Line '' @ string_of_nat n @ '': Failed to parse EXTINF''"

definition shiftIds :: "(nat \<Rightarrow> string) \<Rightarrow> nat \<Rightarrow> nat \<Rightarrow> string" where
  \<comment> \<open>The identifiers \<^verbatim>\<open>crypto.randomUUID\<close> returns after its first \<open>n\<close> calls.\<close>
  "shiftIds randomUUID n k = randomUUID (k + n)"

definition isExtInfLine :: "string \<Rightarrow> bool" where
  \<comment> \<open>A metadata line.\<close>
  "isExtInfLine l = startsWith (trim l) ''#EXTINF:''"

definition isSkippedLine :: "string \<Rightarrow> bool" where
  \<comment> \<open>A blank line, the header, or a comment or directive other than a metadata line.\<close>
  "isSkippedLine l = (trim l = [] \<or> (startsWith (trim l) ''#'' \<and> \<not> startsWith (trim l) ''#EXTINF:''))"

definition isValidUrlLine :: "(string \<Rightarrow> string option) \<Rightarrow> string \<Rightarrow> bool" where
  \<comment> \<open>A line the loop takes for a URL, and that is one.\<close>
  "isValidUrlLine urlProtocol l = (trim l \<noteq> [] \<and> \<not> startsWith (trim l) ''#'' \<and> isValidUrl urlProtocol (trim l))"

definition applyDirective :: "ext_inf \<Rightarrow> string \<Rightarrow> ext_inf" where
  \<comment> \<open>What a line between a metadata line and its URL does to the record: \<^verbatim>\<open>#EXTGRP:\<close>
     sets the group.\<close>
  "applyDirective cur l =
     (if startsWith (trim l) ''#EXTGRP:'' then cur\<lparr>ext_group := Some (trim (drop 8 (trim l)))\<rparr> else cur)"

definition itemsOf :: "(string \<Rightarrow> string option) \<Rightarrow> (nat \<Rightarrow> string) \<Rightarrow> string list \<Rightarrow> channel list" where
  \<comment> \<open>The items of the lines given, parsed on their own.\<close>
  "itemsOf urlProtocol randomUUID ls = ps_channels (parseLines parseExtInf urlProtocol randomUUID initialParseState ls)"






subsection \<open>Example inputs\<close>

definition zeroTagsLine :: string where
  \<comment> \<open>\<^verbatim>\<open>#EXTINF:-1 tvg-season="0" tvg-episode="0",Show S02E05\<close>\<close>
  "zeroTagsLine = ''#EXTINF:-1 tvg-season='' @ [dquote] @ ''0'' @ [dquote] @ '' tvg-episode=''
                    @ [dquote] @ ''0'' @ [dquote] @ '',Show S02E05''"

definition zeroTagsPlaylist :: string where
  "zeroTagsPlaylist = zeroTagsLine @ [CHR 0x0A] @ ''http://x/a''"

definition bareExtInfPlaylist :: string where
  "bareExtInfPlaylist = ''#EXTINF:-1'' @ [CHR 0x0A] @ ''http://x/a''"

definition malformedThenGood :: string where
  \<comment> \<open>A metadata line without a name and its URL, then a well-formed record.\<close>
  "malformedThenGood =
     ''#EXTINF:-1'' @ [CHR 0x0A] @ ''http://x/bad'' @ [CHR 0x0A] @ ''#EXTINF:-1,CNN'' @ [CHR 0x0A] @ ''http://x/cnn''"

definition rejectedAccount :: auth_data where
  \<comment> \<open>\<^verbatim>\<open>{ "user_info": { "auth": 0 } }\<close>\<close>
  "rejectedAccount =
     \<lparr>auth_user_info = Some \<lparr>auth = JNum 0, status = JUndefined, max_connections = JUndefined, active_cons = JUndefined\<rparr>,
      auth_error = JUndefined, auth_message = JUndefined\<rparr>"

definition rejectingServer :: xtream_server where
  "rejectingServer =
     \<lparr>resp_auth = Inr rejectedAccount,
      resp_live_categories = Inr (Some [\<lparr>category_id = ''1'', category_name = ''News''\<rparr>]),
      resp_live_streams = Inr (Some [\<lparr>stream_id = 7, stream_name = ''CNN'', stream_icon = ''i.png'', stream_category_id = ''1''\<rparr>]),
      resp_vod_categories = Inr None, resp_vod_streams = Inr None,
      resp_series_categories = Inr None, resp_series = Inr None,
      second_settles_first = (\<lambda>a. False)\<rparr>"

definition exampleForm :: import_form where
  "exampleForm =
     \<lparr>form_playlistName = ''Mine'', form_xtreamUrl = ''http://h/'', form_xtreamUser = ''u'',
      form_xtreamPass = ''p'', form_importOption = ImportAll, form_playlistToUpdate = None\<rparr>"

definition oldDatabase :: database where
  \<comment> \<open>One record of the playlist \<open>p\<close> and one of another playlist.\<close>
  "oldDatabase =
     \<lparr>db_playlists = [],
      db_channels = [\<lparr>chan = plainChannel ''o1'' ''Old'' ''http://x/old'' Live, playlistId = ''p''\<rparr>,
                     \<lparr>chan = plainChannel ''z'' ''Other'' ''http://x/other'' Live, playlistId = ''q''\<rparr>]\<rparr>"

definition newPlaylist :: playlist where
  "newPlaylist =
     \<lparr>pid = ''p'', pname = ''P'', ptype = M3u, purl = None, xtreamUrl = None, xtreamUser = None,
      xtreamPass = None,
      channels = [plainChannel ''n2'' ''Beta'' ''http://x/b'' Live, plainChannel ''n1'' ''Alpha'' ''http://x/a'' Movie],
      lastUpdated = 1\<rparr>"

definition favoriteA :: channel where
  "favoriteA = (plainChannel ''1'' ''A'' ''X'' Live)\<lparr>isFavorite := Some True\<rparr>"

definition plainB :: channel where
  "plainB = plainChannel ''2'' ''B'' ''Y'' Live"

definition loadedAppState :: app_state where
  \<comment> \<open>The store after an update import has called \<^verbatim>\<open>updatePlaylistChannels\<close>.\<close>
  "loadedAppState =
     updatePlaylistChannels ''p'' [favoriteA] 2
       \<lparr>playlists = [fromMeta (playlistMeta newPlaylist)], activePlaylistId = Some ''p''\<rparr>"

definition exampleUrl :: parsed_url where
  \<comment> \<open>\<^verbatim>\<open>new URL('http://h:8080/live/a/index.m3u8')\<close>\<close>
  "exampleUrl = \<lparr>protocol = ''http:'', host = ''h:8080'', pathname = ''/live/a/index.m3u8''\<rparr>"

definition exampleManifest :: string where
  "exampleManifest =
     ''#EXTM3U'' @ [CHR 0x0A] @ ''#EXTINF:4,'' @ [CHR 0x0A] @ ''seg1.ts'' @ [CHR 0x0A]
       @ ''#EXTINF:4,'' @ [CHR 0x0A] @ ''seg2.m4s'' @ [CHR 0x0A] @ ''https://c/x.key''"








definition httpOnly :: "string \<Rightarrow> string option" where
  \<comment> \<open>\<^verbatim>\<open>new URL(str).protocol\<close> on the URLs of the examples.\<close>
  "httpOnly u = (if startsWith u ''http://'' then Some ''http:'' else None)"

definition headedPlaylist :: string where
  \<comment> \<open>A header, a record, a metadata line without a name, a comment, its URL, a final
     newline.\<close>
  "headedPlaylist =
     ''#EXTM3U'' @ [CHR 0x0A] @ ''#EXTINF:-1,CNN'' @ [CHR 0x0A] @ ''http://x/cnn'' @ [CHR 0x0A]
       @ ''#EXTINF:-1'' @ [CHR 0x0A] @ ''#EXTVLCOPT:x'' @ [CHR 0x0A] @ ''http://x/a'' @ [CHR 0x0A]"

section \<open>Properties\<close>

subsection \<open>Favorites merge\<close>

lemma favoriteChannelIds_mem:
  "u \<in> favoriteChannelIds E = (\<exists>e \<in> set E. isFavorite e = Some True \<and> url e = u)"
  by (auto simp: favoriteChannelIds_def)

lemma favoriteChannelIds_set_cong:
  "set E = set E' \<Longrightarrow> favoriteChannelIds E = favoriteChannelIds E'"
  by (simp add: favoriteChannelIds_def)

text \<open>
  Claim C3. The merge is keyed by playback URL and does not depend on order: the merged
  list has one item per fresh item, in the same order and equal to it but for the flag;
  the flag of each merged item is true iff the item's own URL is the URL of a favorited
  existing item; reordering the existing items (or adding, removing or reordering items
  that do not change the set of favorited URLs) changes nothing; and reordering the fresh
  items reorders the merged items the same way. In particular an existing favorite with
  URL X makes every fresh item with URL X a favorite.
\<close>

theorem favorites_merge_url_keyed:
  "length (channelsWithFavorites E F) = length F
   \<and> (\<forall>i < length F.
        channelsWithFavorites E F ! i = (F ! i)\<lparr>isFavorite := Some (url (F ! i) \<in> favoriteChannelIds E)\<rparr>
        \<and> (isFavorite (channelsWithFavorites E F ! i) = Some True
             \<longleftrightarrow> (\<exists>e \<in> set E. isFavorite e = Some True \<and> url e = url (F ! i))))
   \<and> (favoriteChannelIds E = favoriteChannelIds E' \<longrightarrow> channelsWithFavorites E F = channelsWithFavorites E' F)
   \<and> (mset E = mset E' \<longrightarrow> channelsWithFavorites E F = channelsWithFavorites E' F)
   \<and> (mset F = mset F' \<longrightarrow> mset (channelsWithFavorites E F) = mset (channelsWithFavorites E F'))
   \<and> (\<forall>e \<in> set E. \<forall>m \<in> set (channelsWithFavorites E F).
        isFavorite e = Some True \<and> url m = url e \<longrightarrow> isFavorite m = Some True)"
proof (intro conjI)
  show "length (channelsWithFavorites E F) = length F"
    by (simp add: channelsWithFavorites_def)
  show "\<forall>i < length F.
        channelsWithFavorites E F ! i = (F ! i)\<lparr>isFavorite := Some (url (F ! i) \<in> favoriteChannelIds E)\<rparr>
        \<and> (isFavorite (channelsWithFavorites E F ! i) = Some True
             \<longleftrightarrow> (\<exists>e \<in> set E. isFavorite e = Some True \<and> url e = url (F ! i)))"
    by (simp add: channelsWithFavorites_def favoriteChannelIds_mem)
  show "favoriteChannelIds E = favoriteChannelIds E' \<longrightarrow> channelsWithFavorites E F = channelsWithFavorites E' F"
    by (simp add: channelsWithFavorites_def)
  show "mset E = mset E' \<longrightarrow> channelsWithFavorites E F = channelsWithFavorites E' F"
  proof
    assume "mset E = mset E'"
    then have "set E = set E'" by (rule mset_eq_setD)
    then show "channelsWithFavorites E F = channelsWithFavorites E' F"
      by (simp add: channelsWithFavorites_def favoriteChannelIds_set_cong [of E E'])
  qed
  show "mset F = mset F' \<longrightarrow> mset (channelsWithFavorites E F) = mset (channelsWithFavorites E F')"
  proof
    assume "mset F = mset F'"
    then have "image_mset (\<lambda>c. c\<lparr>isFavorite := Some (url c \<in> favoriteChannelIds E)\<rparr>) (mset F)
        = image_mset (\<lambda>c. c\<lparr>isFavorite := Some (url c \<in> favoriteChannelIds E)\<rparr>) (mset F')"
      by simp
    then show "mset (channelsWithFavorites E F) = mset (channelsWithFavorites E F')"
      by (simp add: channelsWithFavorites_def)
  qed
  show "\<forall>e \<in> set E. \<forall>m \<in> set (channelsWithFavorites E F).
        isFavorite e = Some True \<and> url m = url e \<longrightarrow> isFavorite m = Some True"
    by (auto simp: channelsWithFavorites_def favoriteChannelIds_mem)
qed

theorem favorites_merge_url_keyed_witness:
  "mset [favoriteA, plainB] = mset [plainB, favoriteA]
   \<and> channelsWithFavorites [favoriteA, plainB] [plainChannel ''8'' ''B'' ''Y'' Movie, plainChannel ''9'' ''A'' ''X'' Live]
       = channelsWithFavorites [plainB, favoriteA] [plainChannel ''8'' ''B'' ''Y'' Movie, plainChannel ''9'' ''A'' ''X'' Live]
   \<and> map isFavorite (channelsWithFavorites [favoriteA, plainB]
          [plainChannel ''8'' ''B'' ''Y'' Movie, plainChannel ''9'' ''A'' ''X'' Live]) = [Some False, Some True]"
proof -
  let ?E = "[favoriteA, plainB]" and ?E' = "[plainB, favoriteA]"
  let ?F = "[plainChannel ''8'' ''B'' ''Y'' Movie, plainChannel ''9'' ''A'' ''X'' Live]"
  have perm: "mset ?E = mset ?E'"
    by simp
  have fav: "favoriteChannelIds ?E = {''X''}"
    by (simp add: favoriteChannelIds_def favoriteA_def plainB_def plainChannel_def)
  note inst = favorites_merge_url_keyed [of ?E ?F ?E' ?F]
  from inst perm have same: "channelsWithFavorites ?E ?F = channelsWithFavorites ?E' ?F"
    by blast
  from inst have "\<forall>i < length ?F. channelsWithFavorites ?E ?F ! i
      = (?F ! i)\<lparr>isFavorite := Some (url (?F ! i) \<in> favoriteChannelIds ?E)\<rparr>"
    by blast
  then have "channelsWithFavorites ?E ?F ! 0 = (?F ! 0)\<lparr>isFavorite := Some (url (?F ! 0) \<in> favoriteChannelIds ?E)\<rparr>"
    and "channelsWithFavorites ?E ?F ! 1 = (?F ! 1)\<lparr>isFavorite := Some (url (?F ! 1) \<in> favoriteChannelIds ?E)\<rparr>"
    by simp_all
  then have flags: "isFavorite (channelsWithFavorites ?E ?F ! 0) = Some False"
    "isFavorite (channelsWithFavorites ?E ?F ! 1) = Some True"
    by (simp_all add: fav plainChannel_def)
  from inst have "length (channelsWithFavorites ?E ?F) = length ?F"
    by blast
  then have len: "length (channelsWithFavorites ?E ?F) = 2"
    by simp
  have "map isFavorite (channelsWithFavorites ?E ?F) = [Some False, Some True]"
    using len flags by (auto simp: list_eq_iff_nth_eq less_Suc_eq numeral_2_eq_2)
  with perm same show ?thesis
    by simp
qed

subsection \<open>Content classifier\<close>

lemma breaking_bad_pattern: "regex_test re_season_episode ''Breaking Bad S01E03''"
  by code_simp

text \<open>
  Claim C4. The name "Breaking Bad S01E03" is classified as series whatever the group and
  the URL are, and the series information extracted from it is the series name
  "Breaking Bad", season 1, episode 3 and the series id "breaking-bad".
\<close>

theorem breaking_bad_series:
  "detectContentType ''Breaking Bad S01E03'' grp u = Series
   \<and> parseSeriesInfo ''Breaking Bad S01E03''
       = \<lparr>si_seriesId = Some ''breaking-bad'', si_seriesName = Some ''Breaking Bad'',
          si_seasonNum = Some 1, si_episodeNum = Some 3\<rparr>"
proof
  show "detectContentType ''Breaking Bad S01E03'' grp u = Series"
    by (simp add: detectContentType_def breaking_bad_pattern)
  show "parseSeriesInfo ''Breaking Bad S01E03''
       = \<lparr>si_seriesId = Some ''breaking-bad'', si_seriesName = Some ''Breaking Bad'',
          si_seasonNum = Some 1, si_episodeNum = Some 3\<rparr>"
    by code_simp
qed

theorem breaking_bad_series_witness:
  "detectContentType ''Breaking Bad S01E03'' ''Uncategorized'' ''http://x/bb.mp4'' = Series
   \<and> si_seriesId (parseSeriesInfo ''Breaking Bad S01E03'') = Some ''breaking-bad''"
  using breaking_bad_series [of "''Uncategorized''" "''http://x/bb.mp4''"] by simp

subsection \<open>Precedence of the explicit season and episode tags\<close>

lemma zeroTags_split: "splitLines zeroTagsPlaylist = [zeroTagsLine, ''http://x/a'']"
  by code_simp

lemma zeroTags_ext:
  "parseExtInf zeroTagsLine =
     Inr \<lparr>ext_name = Some ''Show S02E05'', ext_group = None, ext_tvgId = None, ext_tvgName = None,
          ext_logo = None, ext_seriesId = None, ext_seasonNum = Some 0, ext_episodeNum = Some 0\<rparr>"
  by code_simp

lemma zeroTags_trim: "trim zeroTagsLine = zeroTagsLine" "trim ''http://x/a'' = ''http://x/a''"
  by code_simp+

lemma zeroTags_starts:
  "startsWith zeroTagsLine ''#EXTINF:''" "zeroTagsLine \<noteq> []" "zeroTagsLine \<noteq> ''#EXTM3U''"
  by code_simp+

lemma show_series:
  "detectContentType ''Show S02E05'' ''Uncategorized'' ''http://x/a'' = Series"
  "parseSeriesInfo ''Show S02E05'' =
     \<lparr>si_seriesId = Some ''show'', si_seriesName = Some ''Show'', si_seasonNum = Some 2, si_episodeNum = Some 5\<rparr>"
  by code_simp+

text \<open>
  Claim C6, at the input where the code departs from it: a record tagged
  \<^verbatim>\<open>tvg-season="0" tvg-episode="0"\<close> and named "Show S02E05". \<^verbatim>\<open>parseExtInf\<close> reads both
  tags as 0, and the emitted series item carries season 2 and episode 5, the numbers of the
  name: \<^verbatim>\<open>currentChannel.seasonNum || seriesInfo.seasonNum\<close> takes a tag of 0 for a
  missing one.
\<close>

theorem zero_season_tag_loses_to_name:
  assumes "urlProtocol ''http://x/a'' = Some ''http:''"
  shows "parseExtInf zeroTagsLine
           = Inr \<lparr>ext_name = Some ''Show S02E05'', ext_group = None, ext_tvgId = None,
                  ext_tvgName = None, ext_logo = None, ext_seriesId = None,
                  ext_seasonNum = Some 0, ext_episodeNum = Some 0\<rparr>
         \<and> map (\<lambda>c. (contentType c, seasonNum c, episodeNum c))
               (fst (parseM3U urlProtocol randomUUID zeroTagsPlaylist)) = [(Series, Some 2, Some 5)]"
  using assms
  by (simp add: parseM3U_def parseM3U_with_def parseLines_def zeroTags_split parseLine_def
      initialParseState_def zeroTags_trim zeroTags_starts zeroTags_ext isValidUrl_def emitChannel_def
      or_string_def or_number_def show_series Let_def)

theorem zero_season_tag_loses_to_name_witness:
  "map (\<lambda>c. (contentType c, seasonNum c, episodeNum c))
       (fst (parseM3U (\<lambda>u. Some ''http:'') string_of_nat zeroTagsPlaylist)) = [(Series, Some 2, Some 5)]"
  using zero_season_tag_loses_to_name [of "\<lambda>u. Some ''http:''" string_of_nat] by simp

subsection \<open>The parser loop\<close>

lemma parseLine_lineNumber: "lineNumber (parseLine pe up gen st l) = Suc (lineNumber st)"
  unfolding parseLine_def Let_def
  by (simp split: sum.split option.split)

lemma not_extinf: "\<not> startsWith [] ''#EXTINF:''" "\<not> startsWith ''#EXTM3U'' ''#EXTINF:''"
  by simp_all

lemma parseLine_errors:
  "ps_errors (parseLine pe up gen st l)
     = ps_errors st @ (if extInfFails pe l then [failureMessage (Suc (lineNumber st))] else [])"
proof (cases "trim l = [] \<or> trim l = ''#EXTM3U''")
  case True
  then have "\<not> startsWith (trim l) ''#EXTINF:''"
    using not_extinf by auto
  with True show ?thesis
    unfolding parseLine_def Let_def extInfFails_def by simp
next
  case False
  then show ?thesis
    unfolding parseLine_def Let_def extInfFails_def failureMessage_def
    by (simp split: sum.split option.split)
qed

lemma parseLines_Cons: "parseLines pe up gen st (l # ls) = parseLines pe up gen (parseLine pe up gen st l) ls"
  by (simp add: parseLines_def)

lemma parseLines_Nil: "parseLines pe up gen st [] = st"
  by (simp add: parseLines_def)

lemma parseLines_append: "parseLines pe up gen st (xs @ ys) = parseLines pe up gen (parseLines pe up gen st xs) ys"
  by (simp add: parseLines_def)

lemma parseLines_errors:
  "ps_errors (parseLines pe up gen st ls)
     = ps_errors st @ map (\<lambda>(n, l). failureMessage n)
                         (filter (\<lambda>(n, l). extInfFails pe l) (enumerate (Suc (lineNumber st)) ls))"
proof (induction ls arbitrary: st)
  case Nil
  show ?case by (simp add: parseLines_Nil)
next
  case (Cons l ls)
  show ?case
    by (simp add: parseLines_Cons Cons.IH parseLine_errors parseLine_lineNumber)
qed

lemma emitChannel_shift: "emitChannel gen (length cs + n) cur t = emitChannel (shiftIds gen (length cs)) n cur t"
  by (simp add: emitChannel_def shiftIds_def add.commute)

lemma parseLine_shift:
  assumes "currentChannel st = currentChannel st'" and "ps_channels st = cs @ ps_channels st'"
  shows "currentChannel (parseLine pe up gen st l) = currentChannel (parseLine pe up (shiftIds gen (length cs)) st' l)
       \<and> ps_channels (parseLine pe up gen st l) = cs @ ps_channels (parseLine pe up (shiftIds gen (length cs)) st' l)"
  unfolding parseLine_def Let_def
  by (simp add: assms emitChannel_shift split: sum.split option.split)

lemma parseLines_shift:
  assumes "currentChannel st = currentChannel st'" and "ps_channels st = cs @ ps_channels st'"
  shows "ps_channels (parseLines pe up gen st ls) = cs @ ps_channels (parseLines pe up (shiftIds gen (length cs)) st' ls)"
  using assms
proof (induction ls arbitrary: st st')
  case Nil
  then show ?case by (simp add: parseLines_Nil)
next
  case (Cons l ls)
  from parseLine_shift [OF Cons.prems, of pe up gen l]
  show ?case
    by (simp add: parseLines_Cons Cons.IH)
qed

lemma startsWith_hash:
  assumes "t \<noteq> []" and "\<not> startsWith t ''#''"
  shows "t \<noteq> ''#EXTM3U''" and "\<not> startsWith t ''#EXTINF:''"
    and "\<not> startsWith t ''#EXTVLCOPT:''" and "\<not> startsWith t ''#EXTGRP:''"
  using assms by (cases t; auto)+

text \<open>The capture groups of a match: the name pattern always has its group 1, so the one
  method call of \<^verbatim>\<open>parseExtInf\<close> on a value read from a match never meets
  \<^verbatim>\<open>undefined\<close>.\<close>

lemma m_char_groups: "(g, r) \<in> set (m_char P s) \<Longrightarrow> g = []"
  by (auto simp: m_char_def split: list.splits if_splits)

lemma m_star_groups: "(g, r) \<in> set (m_star P s) \<Longrightarrow> g = []"
  by (induction P s rule: m_star.induct) (auto split: if_splits)

lemma m_end_groups: "(g, r) \<in> set (m_end s) \<Longrightarrow> g = []"
  by (auto simp: m_end_def split: if_splits)

lemma m_seq_groups:
  assumes "(g, r) \<in> set (m_seq m1 m2 s)"
  obtains g1 r1 g2 where "(g1, r1) \<in> set (m1 s)" and "(g2, r) \<in> set (m2 r1)" and "g = g1 @ g2"
  using assms by (auto simp: m_seq_def)

lemma m_plus_groups: "(g, r) \<in> set (m_plus P s) \<Longrightarrow> g = []"
  unfolding m_plus_def by (erule m_seq_groups) (auto dest: m_char_groups m_star_groups)

lemma m_group_groups:
  assumes "(g, r) \<in> set (m_group m s)"
  obtains g0 x where "(g0, r) \<in> set (m s)" and "g = g0 @ [x]"
  using assms by (auto simp: m_group_def)

lemma re_name_groups:
  assumes "(g, r) \<in> set (re_name s)"
  shows "length g = 1"
proof -
  from assms obtain g1 r1 g2 where a: "(g1, r1) \<in> set (m_char (\<lambda>c. c = CHR '','') s)"
    and b: "(g2, r) \<in> set (m_seq (m_group (m_plus (\<lambda>c. c \<noteq> CHR '',''))) m_end r1)" and g: "g = g1 @ g2"
    unfolding re_name_def by (rule m_seq_groups)
  from b obtain g3 r3 g4 where c: "(g3, r3) \<in> set (m_group (m_plus (\<lambda>c. c \<noteq> CHR '','')) r1)"
    and d: "(g4, r) \<in> set (m_end r3)" and g2: "g2 = g3 @ g4"
    by (rule m_seq_groups)
  from c obtain g0 x where e: "(g0, r3) \<in> set (m_plus (\<lambda>c. c \<noteq> CHR '','') r1)" and g3: "g3 = g0 @ [x]"
    by (rule m_group_groups)
  from a have "g1 = []" by (rule m_char_groups)
  moreover from d have "g4 = []" by (rule m_end_groups)
  moreover from e have "g0 = []" by (rule m_plus_groups)
  ultimately show ?thesis
    using g g2 g3 by simp
qed

lemma regex_search_in: "regex_search m s = Some (i, g, r) \<Longrightarrow> \<exists>t. (g, r) \<in> set (m t)"
proof (induction m s arbitrary: i rule: regex_search.induct)
  case (1 m)
  then show ?case
    by (cases "m []") (auto intro: exI [of _ "[]"])
next
  case (2 m c cs)
  show ?case
  proof (cases "m (c # cs)")
    case Nil
    with 2 show ?thesis by auto
  next
    case (Cons a list)
    with 2(2) have "(g, r) \<in> set (m (c # cs))"
      by (cases a) auto
    then show ?thesis ..
  qed
qed

lemma regex_groups_in:
  assumes "regex_groups m s = Some g"
  shows "\<exists>t r. (g, r) \<in> set (m t)"
proof -
  from assms obtain i r where "regex_search m s = Some (i, g, r)"
    by (auto simp: regex_groups_def)
  then have "\<exists>t. (g, r) \<in> set (m t)"
    by (rule regex_search_in)
  then show ?thesis by blast
qed

lemma extInfName_total: "\<exists>n. extInfName line = Inr n"
proof (cases "regex_groups re_name line")
  case None
  then show ?thesis by (simp add: extInfName_def)
next
  case (Some g)
  then obtain t r where "(g, r) \<in> set (re_name t)"
    using regex_groups_in by blast
  then have "length g = 1" by (rule re_name_groups)
  with Some show ?thesis
    by (simp add: extInfName_def groupAt_def callTrim_def)
qed

lemma parseExtInf_total: "\<exists>x. parseExtInf line = Inr x"
proof -
  obtain n where "extInfName line = Inr n"
    using extInfName_total by blast
  then show ?thesis
    by (simp add: parseExtInf_def Let_def)
qed

lemma parseExtInf_name:
  assumes "parseExtInf line = Inr x"
  shows "extInfName line = Inr (ext_name x)"
  using assms by (auto simp: parseExtInf_def Let_def split: sum.splits)

lemma parseExtInf_never_fails: "\<not> extInfFails parseExtInf l"
  using parseExtInf_total [of "trim l"] by (auto simp: extInfFails_def)

lemma parseLines_no_error: "ps_errors (parseLines parseExtInf up gen st ls) = ps_errors st"
  by (simp add: parseLines_errors parseExtInf_never_fails)

lemma parseLine_extinf:
  assumes "startsWith (trim l) ''#EXTINF:''" and "parseExtInf (trim l) = Inr x"
  shows "currentChannel (parseLine parseExtInf up gen st l) = Some x"
    and "ps_channels (parseLine parseExtInf up gen st l) = ps_channels st"
  using assms not_extinf unfolding parseLine_def Let_def by auto

lemma parseLine_skipped:
  assumes "isSkippedLine l" and "currentChannel st = Some cur"
  shows "currentChannel (parseLine pe up gen st l) = Some (applyDirective cur l)
       \<and> ps_channels (parseLine pe up gen st l) = ps_channels st"
proof (cases "trim l = [] \<or> trim l = ''#EXTM3U''")
  case True
  then have "\<not> startsWith (trim l) ''#EXTGRP:''"
    by auto
  with True assms(2) show ?thesis
    unfolding parseLine_def Let_def applyDirective_def by simp
next
  case False
  with assms(1) have "startsWith (trim l) ''#''" "\<not> startsWith (trim l) ''#EXTINF:''"
    by (simp_all add: isSkippedLine_def)
  with False assms(2) show ?thesis
    unfolding parseLine_def Let_def applyDirective_def by simp
qed

lemma parseLines_skipped:
  assumes "\<forall>l \<in> set mid. isSkippedLine l" and "currentChannel st = Some cur"
  shows "currentChannel (parseLines pe up gen st mid) = Some (foldl applyDirective cur mid)
       \<and> ps_channels (parseLines pe up gen st mid) = ps_channels st"
  using assms
proof (induction mid arbitrary: st cur)
  case Nil
  then show ?case by (simp add: parseLines_Nil)
next
  case (Cons l ls)
  from Cons.prems have "isSkippedLine l" by simp
  from parseLine_skipped [OF this Cons.prems(2), of pe up gen]
  have a: "currentChannel (parseLine pe up gen st l) = Some (applyDirective cur l)"
    and b: "ps_channels (parseLine pe up gen st l) = ps_channels st"
    by simp_all
  from Cons.prems have "\<forall>l \<in> set ls. isSkippedLine l" by simp
  from Cons.IH [OF this a] b show ?case
    by (simp add: parseLines_Cons)
qed

lemma parseLine_url:
  assumes "isValidUrlLine up u" and "currentChannel st = Some cur"
  shows "currentChannel (parseLine pe up gen st u) = None"
    and "ps_channels (parseLine pe up gen st u)
           = ps_channels st @ [emitChannel gen (length (ps_channels st)) cur (trim u)]"
proof -
  from assms(1) have t: "trim u \<noteq> []" "\<not> startsWith (trim u) ''#''" "isValidUrl up (trim u)"
    by (simp_all add: isValidUrlLine_def)
  note h = startsWith_hash [OF t(1,2)]
  show "currentChannel (parseLine pe up gen st u) = None"
    unfolding parseLine_def Let_def using t h assms(2) by simp
  show "ps_channels (parseLine pe up gen st u)
           = ps_channels st @ [emitChannel gen (length (ps_channels st)) cur (trim u)]"
    unfolding parseLine_def Let_def using t h assms(2) by simp
qed

lemma applyDirectives_name: "ext_name (foldl applyDirective x mid) = ext_name x"
  by (induction mid arbitrary: x) (simp_all add: applyDirective_def)

lemma emitChannel_name_url:
  "name (emitChannel gen k cur t) = (case or_string (ext_name cur) None of None \<Rightarrow> ''Unknown Channel'' | Some n \<Rightarrow> n)"
  "url (emitChannel gen k cur t) = t"
  by (auto simp: emitChannel_def Let_def or_string_def split: option.splits)

lemma record_emitted:
  assumes "isExtInfLine l" and "parseExtInf (trim l) = Inr x"
    and "\<forall>m \<in> set mid. isSkippedLine m" and "isValidUrlLine up u"
  shows "ps_channels (parseLines parseExtInf up gen initialParseState (pre @ l # mid @ u # post))
           = itemsOf up gen pre
             @ [emitChannel gen (length (itemsOf up gen pre)) (foldl applyDirective x mid) (trim u)]
             @ itemsOf up (shiftIds gen (Suc (length (itemsOf up gen pre)))) post"
proof -
  define s0 where "s0 = parseLines parseExtInf up gen initialParseState pre"
  define s1 where "s1 = parseLine parseExtInf up gen s0 l"
  define s2 where "s2 = parseLines parseExtInf up gen s1 mid"
  define s3 where "s3 = parseLine parseExtInf up gen s2 u"
  define c where "c = emitChannel gen (length (ps_channels s0)) (foldl applyDirective x mid) (trim u)"
  have e: "startsWith (trim l) ''#EXTINF:''"
    using assms(1) by (simp add: isExtInfLine_def)
  have s1: "currentChannel s1 = Some x" "ps_channels s1 = ps_channels s0"
    unfolding s1_def by (rule parseLine_extinf [OF e assms(2)])+
  have s2: "currentChannel s2 = Some (foldl applyDirective x mid)" "ps_channels s2 = ps_channels s0"
    unfolding s2_def using parseLines_skipped [OF assms(3) s1(1), of parseExtInf up gen] s1(2) by simp_all
  have s3a: "currentChannel s3 = None"
    unfolding s3_def by (rule parseLine_url(1) [OF assms(4) s2(1)])
  have s3b: "ps_channels s3 = ps_channels s2 @ [emitChannel gen (length (ps_channels s2)) (foldl applyDirective x mid) (trim u)]"
    unfolding s3_def by (rule parseLine_url(2) [OF assms(4) s2(1)])
  have cur: "currentChannel s3 = currentChannel initialParseState"
    using s3a by (simp add: initialParseState_def)
  have chs: "ps_channels s3 = (ps_channels s0 @ [c]) @ ps_channels initialParseState"
    using s3b s2(2) by (simp add: initialParseState_def c_def)
  have "parseLines parseExtInf up gen initialParseState (pre @ l # mid @ u # post)
          = parseLines parseExtInf up gen s3 post"
    by (simp only: parseLines_append parseLines_Cons s0_def s1_def s2_def s3_def)
  then have "ps_channels (parseLines parseExtInf up gen initialParseState (pre @ l # mid @ u # post))
          = ps_channels (parseLines parseExtInf up gen s3 post)"
    by (rule arg_cong)
  also have "\<dots> = (ps_channels s0 @ [c])
      @ ps_channels (parseLines parseExtInf up (shiftIds gen (length (ps_channels s0 @ [c]))) initialParseState post)"
    by (rule parseLines_shift [OF cur chs])
  finally show ?thesis
    by (simp add: itemsOf_def s0_def c_def)
qed


lemma parseM3U_items: "fst (parseM3U up gen content) = itemsOf up gen (splitLines content)"
  by (simp add: parseM3U_def parseM3U_with_def Let_def itemsOf_def)

lemma parseM3U_errors: "snd (parseM3U up gen content) = []"
  by (simp add: parseM3U_def parseM3U_with_def Let_def parseLines_no_error initialParseState_def)

lemma itemsOf_record:
  assumes "isExtInfLine l" and "\<forall>m \<in> set mid. isSkippedLine m" and "isValidUrlLine up u"
  obtains x c where "parseExtInf (trim l) = Inr x"
    and "c = emitChannel gen (length (itemsOf up gen pre)) (foldl applyDirective x mid) (trim u)"
    and "name c = (if ext_name x = None \<or> ext_name x = Some [] then ''Unknown Channel'' else the (ext_name x))"
    and "url c = trim u"
    and "itemsOf up gen (pre @ l # mid @ u # post)
           = itemsOf up gen pre @ [c] @ itemsOf up (shiftIds gen (Suc (length (itemsOf up gen pre)))) post"
proof -
  obtain x where x: "parseExtInf (trim l) = Inr x"
    using parseExtInf_total by blast
  define c where "c = emitChannel gen (length (itemsOf up gen pre)) (foldl applyDirective x mid) (trim u)"
  have "name c = (if ext_name x = None \<or> ext_name x = Some [] then ''Unknown Channel'' else the (ext_name x))"
    unfolding c_def by (auto simp: emitChannel_name_url applyDirectives_name or_string_def split: option.splits)
  moreover have "url c = trim u"
    unfolding c_def by (simp add: emitChannel_name_url)
  moreover have "itemsOf up gen (pre @ l # mid @ u # post)
           = itemsOf up gen pre @ [c] @ itemsOf up (shiftIds gen (Suc (length (itemsOf up gen pre)))) post"
    unfolding c_def itemsOf_def [of up gen "pre @ l # mid @ u # post"]
    by (rule record_emitted [OF assms(1) x assms(2,3)])
  ultimately show ?thesis
    using x c_def that by blast
qed

text \<open>
  Claim C5, as the code has it. The parse is a total function of the text, and its error
  list is empty: \<^verbatim>\<open>parseExtInf\<close> returns on every line, so no metadata line is reported,
  a malformed one included. Whatever precedes it (malformed records included), a metadata
  line followed, after any blank lines, comments and directives, by a valid URL line
  produces exactly one item: it carries that URL and the name read from the metadata line,
  "Unknown Channel" when that line has none. The items before it are those of the lines
  before the record, and the items after it are those of the lines after it, parsed on
  their own.
\<close>

theorem record_parsed_whatever_precedes:
  assumes "splitLines content = pre @ l # mid @ u # post"
    and "isExtInfLine l" and "\<forall>m \<in> set mid. isSkippedLine m" and "isValidUrlLine urlProtocol u"
  shows "snd (parseM3U urlProtocol randomUUID content) = []
       \<and> (\<exists>x c. parseExtInf (trim l) = Inr x
             \<and> c = emitChannel randomUUID (length (itemsOf urlProtocol randomUUID pre))
                     (foldl applyDirective x mid) (trim u)
             \<and> name c = (if ext_name x = None \<or> ext_name x = Some [] then ''Unknown Channel'' else the (ext_name x))
             \<and> url c = trim u
             \<and> fst (parseM3U urlProtocol randomUUID content)
                 = itemsOf urlProtocol randomUUID pre @ [c]
                   @ itemsOf urlProtocol (shiftIds randomUUID (Suc (length (itemsOf urlProtocol randomUUID pre)))) post)"
proof
  show "snd (parseM3U urlProtocol randomUUID content) = []"
    by (rule parseM3U_errors)
  from assms(2,3,4) obtain x c where "parseExtInf (trim l) = Inr x"
    and "c = emitChannel randomUUID (length (itemsOf urlProtocol randomUUID pre))
               (foldl applyDirective x mid) (trim u)"
    and "name c = (if ext_name x = None \<or> ext_name x = Some [] then ''Unknown Channel'' else the (ext_name x))"
    and "url c = trim u"
    and "itemsOf urlProtocol randomUUID (pre @ l # mid @ u # post)
           = itemsOf urlProtocol randomUUID pre @ [c]
             @ itemsOf urlProtocol (shiftIds randomUUID (Suc (length (itemsOf urlProtocol randomUUID pre)))) post"
    by (rule itemsOf_record)
  then show "\<exists>x c. parseExtInf (trim l) = Inr x
             \<and> c = emitChannel randomUUID (length (itemsOf urlProtocol randomUUID pre))
                     (foldl applyDirective x mid) (trim u)
             \<and> name c = (if ext_name x = None \<or> ext_name x = Some [] then ''Unknown Channel'' else the (ext_name x))
             \<and> url c = trim u
             \<and> fst (parseM3U urlProtocol randomUUID content)
                 = itemsOf urlProtocol randomUUID pre @ [c]
                   @ itemsOf urlProtocol (shiftIds randomUUID (Suc (length (itemsOf urlProtocol randomUUID pre)))) post"
    unfolding parseM3U_items assms(1) by blast
qed

lemma malformedThenGood_lines:
  "splitLines malformedThenGood = [''#EXTINF:-1'', ''http://x/bad''] @ ''#EXTINF:-1,CNN'' # [] @ ''http://x/cnn'' # []"
  by code_simp

lemma cnn_line:
  "isExtInfLine ''#EXTINF:-1,CNN''" "isValidUrlLine httpOnly ''http://x/cnn''"
  "parseExtInf (trim ''#EXTINF:-1,CNN'')
     = Inr \<lparr>ext_name = Some ''CNN'', ext_group = None, ext_tvgId = None, ext_tvgName = None,
            ext_logo = None, ext_seriesId = None, ext_seasonNum = None, ext_episodeNum = None\<rparr>"
  "trim ''http://x/cnn'' = ''http://x/cnn''"
  by code_simp+

theorem record_parsed_whatever_precedes_witness:
  "splitLines malformedThenGood = [''#EXTINF:-1'', ''http://x/bad''] @ ''#EXTINF:-1,CNN'' # [] @ ''http://x/cnn'' # []
   \<and> isExtInfLine ''#EXTINF:-1,CNN'' \<and> isValidUrlLine httpOnly ''http://x/cnn''
   \<and> snd (parseM3U httpOnly string_of_nat malformedThenGood) = []
   \<and> (\<exists>c. name c = ''CNN'' \<and> url c = ''http://x/cnn''
          \<and> fst (parseM3U httpOnly string_of_nat malformedThenGood)
              = itemsOf httpOnly string_of_nat [''#EXTINF:-1'', ''http://x/bad''] @ [c])"
proof -
  have mid: "\<forall>m \<in> set ([] :: string list). isSkippedLine m"
    by simp
  have post: "itemsOf httpOnly g [] = []" for g
    by (simp add: itemsOf_def parseLines_Nil initialParseState_def)
  note inst = record_parsed_whatever_precedes [OF malformedThenGood_lines cnn_line(1) mid cnn_line(2), of string_of_nat]
  from inst have "snd (parseM3U httpOnly string_of_nat malformedThenGood) = []"
    by blast
  moreover from inst have "\<exists>c. name c = ''CNN'' \<and> url c = ''http://x/cnn''
          \<and> fst (parseM3U httpOnly string_of_nat malformedThenGood)
              = itemsOf httpOnly string_of_nat [''#EXTINF:-1'', ''http://x/bad''] @ [c]"
    by (auto simp: cnn_line(3,4) post)
  ultimately show ?thesis
    using malformedThenGood_lines cnn_line(1,2) by blast
qed

text \<open>
  The claim as stated fails on a text of two records, the first with the metadata line
  \<^verbatim>\<open>#EXTINF:-1\<close>, which has no comma and so no name: the line is not reported in the error
  list, and it does produce an item.
\<close>

theorem malformed_line_yields_item:
  "splitLines malformedThenGood = [''#EXTINF:-1'', ''http://x/bad'', ''#EXTINF:-1,CNN'', ''http://x/cnn'']
   \<and> extInfName ''#EXTINF:-1'' = Inr None
   \<and> snd (parseM3U httpOnly string_of_nat malformedThenGood) = []
   \<and> map (\<lambda>c. (name c, url c)) (fst (parseM3U httpOnly string_of_nat malformedThenGood))
       = [(''Unknown Channel'', ''http://x/bad''), (''CNN'', ''http://x/cnn'')]"
  by code_simp

text \<open>
  Claim C9. \<^verbatim>\<open>parseExtInf\<close> returns on every string: its one method call on a value read
  from a match is on group 1 of the name pattern, which every match of that pattern has. So
  the \<^verbatim>\<open>catch\<close> branch of \<^verbatim>\<open>parseM3U\<close> is never taken and the error list is empty for
  every input text. In any text, a metadata line from which no name can be extracted,
  followed (after any blank lines, comments and directives) by a valid URL line, yields
  one item, named "Unknown Channel" and carrying that URL, between the items of the lines
  before it and those of the lines after it.
\<close>

theorem parseM3U_error_list_empty:
  "(\<exists>x. parseExtInf line = Inr x)
   \<and> snd (parseM3U urlProtocol randomUUID content) = []
   \<and> (splitLines content = pre @ l # mid @ u # post \<and> isExtInfLine l
        \<and> extInfName (trim l) \<in> {Inr None, Inr (Some [])}
        \<and> (\<forall>m \<in> set mid. isSkippedLine m) \<and> isValidUrlLine urlProtocol u
      \<longrightarrow> (\<exists>c. name c = ''Unknown Channel'' \<and> url c = trim u
             \<and> fst (parseM3U urlProtocol randomUUID content)
                 = itemsOf urlProtocol randomUUID pre @ [c]
                   @ itemsOf urlProtocol (shiftIds randomUUID (Suc (length (itemsOf urlProtocol randomUUID pre)))) post))"
proof (intro conjI impI)
  show "\<exists>x. parseExtInf line = Inr x"
    by (rule parseExtInf_total)
  show "snd (parseM3U urlProtocol randomUUID content) = []"
    by (rule parseM3U_errors)
next
  assume a: "splitLines content = pre @ l # mid @ u # post \<and> isExtInfLine l
        \<and> extInfName (trim l) \<in> {Inr None, Inr (Some [])}
        \<and> (\<forall>m \<in> set mid. isSkippedLine m) \<and> isValidUrlLine urlProtocol u"
  then have h: "isExtInfLine l" "\<forall>m \<in> set mid. isSkippedLine m" "isValidUrlLine urlProtocol u"
    by simp_all
  from h obtain x c where x: "parseExtInf (trim l) = Inr x"
    and "c = emitChannel randomUUID (length (itemsOf urlProtocol randomUUID pre)) (foldl applyDirective x mid) (trim u)"
    and n: "name c = (if ext_name x = None \<or> ext_name x = Some [] then ''Unknown Channel'' else the (ext_name x))"
    and u: "url c = trim u"
    and i: "itemsOf urlProtocol randomUUID (pre @ l # mid @ u # post)
           = itemsOf urlProtocol randomUUID pre @ [c]
             @ itemsOf urlProtocol (shiftIds randomUUID (Suc (length (itemsOf urlProtocol randomUUID pre)))) post"
    by (rule itemsOf_record)
  from parseExtInf_name [OF x] a have "ext_name x = None \<or> ext_name x = Some []"
    by auto
  with n have "name c = ''Unknown Channel''"
    by simp
  with u i a show "\<exists>c. name c = ''Unknown Channel'' \<and> url c = trim u
             \<and> fst (parseM3U urlProtocol randomUUID content)
                 = itemsOf urlProtocol randomUUID pre @ [c]
                   @ itemsOf urlProtocol (shiftIds randomUUID (Suc (length (itemsOf urlProtocol randomUUID pre)))) post"
    unfolding parseM3U_items by auto
qed

lemma headedPlaylist_lines:
  "splitLines headedPlaylist
     = [''#EXTM3U'', ''#EXTINF:-1,CNN'', ''http://x/cnn''] @ ''#EXTINF:-1'' # [''#EXTVLCOPT:x'']
       @ ''http://x/a'' # [[]]"
  by code_simp

lemma headedPlaylist_facts:
  "isExtInfLine ''#EXTINF:-1''" "extInfName (trim ''#EXTINF:-1'') = Inr None"
  "isSkippedLine ''#EXTVLCOPT:x''" "isValidUrlLine httpOnly ''http://x/a''"
  "trim ''http://x/a'' = ''http://x/a''"
  by code_simp+

lemma headedPlaylist_items:
  "map name (itemsOf httpOnly string_of_nat [''#EXTM3U'', ''#EXTINF:-1,CNN'', ''http://x/cnn'']) = [''CNN'']"
  by code_simp

lemma blank_line_items: "itemsOf up g [[]] = []"
proof -
  have "trim [] = []"
    by code_simp
  then show ?thesis
    by (simp add: itemsOf_def parseLines_def parseLine_def initialParseState_def Let_def)
qed

theorem parseM3U_error_list_empty_witness:
  "splitLines headedPlaylist
     = [''#EXTM3U'', ''#EXTINF:-1,CNN'', ''http://x/cnn''] @ ''#EXTINF:-1'' # [''#EXTVLCOPT:x'']
       @ ''http://x/a'' # [[]]
   \<and> isExtInfLine ''#EXTINF:-1'' \<and> extInfName (trim ''#EXTINF:-1'') = Inr None
   \<and> isSkippedLine ''#EXTVLCOPT:x'' \<and> isValidUrlLine httpOnly ''http://x/a''
   \<and> snd (parseM3U httpOnly string_of_nat headedPlaylist) = []
   \<and> map name (fst (parseM3U httpOnly string_of_nat headedPlaylist)) = [''CNN'', ''Unknown Channel'']"
proof -
  have mid: "\<forall>m \<in> set [''#EXTVLCOPT:x'']. isSkippedLine m"
    using headedPlaylist_facts(3) by simp
  note inst = parseM3U_error_list_empty [of "''x''" httpOnly string_of_nat headedPlaylist
      "[''#EXTM3U'', ''#EXTINF:-1,CNN'', ''http://x/cnn'']" "''#EXTINF:-1''" "[''#EXTVLCOPT:x'']"
      "''http://x/a''" "[[]]"]
  from inst have e: "snd (parseM3U httpOnly string_of_nat headedPlaylist) = []"
    by blast
  from inst headedPlaylist_lines headedPlaylist_facts(1,2,4) mid
  obtain c where "name c = ''Unknown Channel''"
    and "fst (parseM3U httpOnly string_of_nat headedPlaylist)
           = itemsOf httpOnly string_of_nat [''#EXTM3U'', ''#EXTINF:-1,CNN'', ''http://x/cnn''] @ [c]
             @ itemsOf httpOnly (shiftIds string_of_nat
                 (Suc (length (itemsOf httpOnly string_of_nat [''#EXTM3U'', ''#EXTINF:-1,CNN'', ''http://x/cnn''])))) [[]]"
    by blast
  then have "map name (fst (parseM3U httpOnly string_of_nat headedPlaylist)) = [''CNN'', ''Unknown Channel'']"
    by (simp add: headedPlaylist_items blank_line_items)
  with e show ?thesis
    using headedPlaylist_lines headedPlaylist_facts(1,2,3,4) by blast
qed

subsection \<open>Local store: replacing save\<close>

lemma set_deleteChannel: "set (deleteChannel k st) = {x \<in> set st. storedId x \<noteq> k}"
  by (auto simp: deleteChannel_def)

lemma set_putChannel: "set (putChannel r st) = insert r {x \<in> set st. storedId x \<noteq> storedId r}"
  by (simp add: putChannel_def set_insort_key set_deleteChannel)

lemma set_fold_delete:
  "set (fold (\<lambda>r st. deleteChannel (storedId r) st) rs st) = {x \<in> set st. storedId x \<notin> storedId ` set rs}"
  by (induction rs arbitrary: st) (auto simp: set_deleteChannel)

lemma set_byPlaylist: "set (byPlaylist st p) = {x \<in> set st. playlistId x = p}"
  by (auto simp: byPlaylist_def)

lemma set_deleteByCursor:
  "set (deleteByCursor p st) = {x \<in> set st. storedId x \<notin> storedId ` {y \<in> set st. playlistId y = p}}"
  by (simp add: deleteByCursor_def set_fold_delete set_byPlaylist)

lemma byPlaylist_deleteByCursor: "byPlaylist (deleteByCursor p st) p = []"
proof -
  have "set (byPlaylist (deleteByCursor p st) p) = {}"
    by (auto simp: set_byPlaylist set_deleteByCursor)
  then show ?thesis by simp
qed

lemma saveBatches_fold:
  "saveBatches p chs i st = fold (\<lambda>c st. putChannel \<lparr>chan = c, playlistId = p\<rparr> st) (drop i chs) st"
proof (induction p chs i st rule: saveBatches.induct)
  case (1 p chs i st)
  show ?case
  proof (cases "i < length chs")
    case True
    have "drop i chs = take BATCH_SIZE (drop i chs) @ drop (i + BATCH_SIZE) chs"
      by (simp add: add.commute [of i] flip: drop_drop)
    then have "fold (\<lambda>c st. putChannel \<lparr>chan = c, playlistId = p\<rparr> st) (drop i chs) st
        = fold (\<lambda>c st. putChannel \<lparr>chan = c, playlistId = p\<rparr> st) (drop (i + BATCH_SIZE) chs)
            (fold (\<lambda>c st. putChannel \<lparr>chan = c, playlistId = p\<rparr> st) (take BATCH_SIZE (drop i chs)) st)"
      by (metis fold_append comp_apply)
    with True "1.IH" show ?thesis
      by (simp add: saveBatches.simps [of p chs i st])
  next
    case False
    then show ?thesis
      by (simp add: saveBatches.simps [of p chs i st])
  qed
qed

lemma fold_put_ids:
  assumes "byPlaylist st p = []"
  shows "storedId ` set (byPlaylist (fold (\<lambda>c st. putChannel \<lparr>chan = c, playlistId = p\<rparr> st) chs st) p) = cid ` set chs"
proof (induction chs rule: rev_induct)
  case Nil
  show ?case using assms by simp
next
  case (snoc c cs)
  let ?s = "fold (\<lambda>c st. putChannel \<lparr>chan = c, playlistId = p\<rparr> st) cs st"
  have "set (byPlaylist (putChannel \<lparr>chan = c, playlistId = p\<rparr> ?s) p)
      = insert \<lparr>chan = c, playlistId = p\<rparr> {x \<in> set (byPlaylist ?s p). storedId x \<noteq> cid c}"
    by (auto simp: set_byPlaylist set_putChannel storedId_def)
  then have "storedId ` set (byPlaylist (putChannel \<lparr>chan = c, playlistId = p\<rparr> ?s) p)
      = insert (cid c) (storedId ` {x \<in> set (byPlaylist ?s p). storedId x \<noteq> cid c})"
    by (simp add: storedId_def)
  also have "\<dots> = insert (cid c) (storedId ` set (byPlaylist ?s p))"
    by blast
  finally show ?case
    using snoc by simp
qed

lemma fold_put_records:
  assumes "byPlaylist st p = []"
  shows "set (byPlaylist (fold (\<lambda>c st. putChannel \<lparr>chan = c, playlistId = p\<rparr> st) chs st) p)
           \<subseteq> (\<lambda>c. \<lparr>chan = c, playlistId = p\<rparr>) ` set chs"
proof (induction chs rule: rev_induct)
  case Nil
  show ?case using assms by simp
next
  case (snoc c cs)
  then show ?case
    by (auto simp: set_byPlaylist set_putChannel)
qed

lemma fold_put_distinct:
  assumes "byPlaylist st p = []" and "distinct (map cid chs)"
  shows "set (byPlaylist (fold (\<lambda>c st. putChannel \<lparr>chan = c, playlistId = p\<rparr> st) chs st) p)
           = (\<lambda>c. \<lparr>chan = c, playlistId = p\<rparr>) ` set chs"
  using assms(2)
proof (induction chs rule: rev_induct)
  case Nil
  show ?case using assms(1) by simp
next
  case (snoc c cs)
  let ?s = "fold (\<lambda>c st. putChannel \<lparr>chan = c, playlistId = p\<rparr> st) cs st"
  from snoc.prems have d: "distinct (map cid cs)" and n: "cid c \<notin> cid ` set cs"
    by auto
  from snoc.IH [OF d] have ih: "set (byPlaylist ?s p) = (\<lambda>c. \<lparr>chan = c, playlistId = p\<rparr>) ` set cs" .
  have "set (byPlaylist (putChannel \<lparr>chan = c, playlistId = p\<rparr> ?s) p)
      = insert \<lparr>chan = c, playlistId = p\<rparr> {x \<in> set (byPlaylist ?s p). storedId x \<noteq> cid c}"
    by (auto simp: set_byPlaylist set_putChannel storedId_def)
  also have "{x \<in> set (byPlaylist ?s p). storedId x \<noteq> cid c} = set (byPlaylist ?s p)"
    using n by (auto simp: ih storedId_def) (metis imageI)
  finally show ?case
    by (simp add: ih)
qed

lemma set_filterChannels: "set (filterChannels opts db) \<subseteq> set (byPlaylist (db_channels db) (q_playlistId opts))"
  by (auto simp: filterChannels_def Let_def byPlaylist_def byPlaylistType_def split: option.splits if_splits)

lemma set_getChannels: "set (getChannels opts db) \<subseteq> set (byPlaylist (db_channels db) (q_playlistId opts))"
proof -
  have "set (getChannels opts db) \<subseteq> set (filterChannels opts db)"
    by (auto simp: getChannels_def slice_def Let_def dest: in_set_takeD in_set_dropD)
  with set_filterChannels show ?thesis by blast
qed

text \<open>
  Claim C2. A replacing save first deletes every record of the playlist (no record of it is
  left when the cursor loop ends); after the save the ids of the records stored for the
  playlist are exactly the ids of the channels saved, every such record is one of the new
  channels tagged with the playlist id (exactly the new channels when their ids are
  distinct), and every record a later \<^verbatim>\<open>getChannels\<close> returns for the playlist, whatever its
  filters, offset and limit, is one of the new records.
\<close>

theorem replace_save_stores_exactly_new_channels:
  "byPlaylist (deleteByCursor (pid p) (db_channels db)) (pid p) = []
   \<and> storedId ` set (byPlaylist (db_channels (savePlaylist p True db)) (pid p)) = cid ` set (channels p)
   \<and> set (byPlaylist (db_channels (savePlaylist p True db)) (pid p)) \<subseteq> (\<lambda>c. \<lparr>chan = c, playlistId = pid p\<rparr>) ` set (channels p)
   \<and> (distinct (map cid (channels p)) \<longrightarrow>
        set (byPlaylist (db_channels (savePlaylist p True db)) (pid p)) = (\<lambda>c. \<lparr>chan = c, playlistId = pid p\<rparr>) ` set (channels p))
   \<and> (q_playlistId opts = pid p \<longrightarrow>
        set (getChannels opts (savePlaylist p True db)) \<subseteq> (\<lambda>c. \<lparr>chan = c, playlistId = pid p\<rparr>) ` set (channels p))"
proof -
  let ?st = "deleteByCursor (pid p) (db_channels db)"
  have e: "byPlaylist ?st (pid p) = []"
    by (rule byPlaylist_deleteByCursor)
  have s: "db_channels (savePlaylist p True db)
      = fold (\<lambda>c st. putChannel \<lparr>chan = c, playlistId = pid p\<rparr> st) (channels p) ?st"
    by (simp add: savePlaylist_def saveBatches_fold)
  have r: "set (byPlaylist (db_channels (savePlaylist p True db)) (pid p)) \<subseteq> (\<lambda>c. \<lparr>chan = c, playlistId = pid p\<rparr>) ` set (channels p)"
    unfolding s by (rule fold_put_records [OF e])
  have g: "q_playlistId opts = pid p \<longrightarrow>
        set (getChannels opts (savePlaylist p True db)) \<subseteq> (\<lambda>c. \<lparr>chan = c, playlistId = pid p\<rparr>) ` set (channels p)"
  proof
    assume q: "q_playlistId opts = pid p"
    have "set (getChannels opts (savePlaylist p True db)) \<subseteq> set (byPlaylist (db_channels (savePlaylist p True db)) (pid p))"
      using set_getChannels [of opts "savePlaylist p True db"] by (simp only: q)
    then show "set (getChannels opts (savePlaylist p True db)) \<subseteq> (\<lambda>c. \<lparr>chan = c, playlistId = pid p\<rparr>) ` set (channels p)"
      using r by (rule subset_trans)
  qed
  show ?thesis
    using e r g fold_put_ids [OF e, of "channels p"] fold_put_distinct [OF e, of "channels p"]
    unfolding s [symmetric] by blast
qed


theorem replace_save_stores_exactly_new_channels_witness:
  "distinct (map cid (channels newPlaylist))
   \<and> map storedId (db_channels oldDatabase) = [''o1'', ''z'']
   \<and> map storedId (db_channels (savePlaylist newPlaylist True oldDatabase)) = [''n1'', ''n2'', ''z'']
   \<and> set (byPlaylist (db_channels (savePlaylist newPlaylist True oldDatabase)) ''p'')
       = (\<lambda>c. \<lparr>chan = c, playlistId = ''p''\<rparr>) ` set (channels newPlaylist)
   \<and> set (getChannels \<lparr>q_playlistId = ''p'', q_searchQuery = None, q_group = None, q_isFavorite = None,
                         q_contentType = Some ''live'', q_offset = None, q_limit = None\<rparr>
             (savePlaylist newPlaylist True oldDatabase))
       \<subseteq> (\<lambda>c. \<lparr>chan = c, playlistId = ''p''\<rparr>) ` set (channels newPlaylist)"
proof -
  let ?q = "\<lparr>q_playlistId = ''p'', q_searchQuery = None, q_group = None, q_isFavorite = None,
             q_contentType = Some ''live'', q_offset = None, q_limit = None\<rparr>"
  have d: "distinct (map cid (channels newPlaylist))"
    by code_simp
  have p: "pid newPlaylist = ''p''" "q_playlistId ?q = pid newPlaylist"
    by (simp_all add: newPlaylist_def)
  have ids: "map storedId (db_channels oldDatabase) = [''o1'', ''z'']"
    "map storedId (db_channels (savePlaylist newPlaylist True oldDatabase)) = [''n1'', ''n2'', ''z'']"
    by code_simp+
  note inst = replace_save_stores_exactly_new_channels [of newPlaylist oldDatabase ?q]
  from inst d have "set (byPlaylist (db_channels (savePlaylist newPlaylist True oldDatabase)) (pid newPlaylist))
       = (\<lambda>c. \<lparr>chan = c, playlistId = pid newPlaylist\<rparr>) ` set (channels newPlaylist)"
    by blast
  moreover from inst p(2) have "set (getChannels ?q (savePlaylist newPlaylist True oldDatabase))
       \<subseteq> (\<lambda>c. \<lparr>chan = c, playlistId = pid newPlaylist\<rparr>) ` set (channels newPlaylist)"
    by blast
  ultimately show ?thesis
    using d ids by (simp only: p(1))
qed

subsection \<open>Xtream adapter\<close>

lemma auth_message_no_quota:
  "rethrow (JsError ''Error'' ''Authentication failed: Invalid username or password'')
     = JsError ''Error'' ''Authentication failed: Invalid username or password''"
  by code_simp

lemma auth_message_no_network:
  "\<not> includes_str ''Authentication failed: Invalid username or password'' ''Failed to fetch''"
  "\<not> includes_str ''Authentication failed: Invalid username or password'' ''NetworkError''"
  by code_simp+

lemma checkAccount_auth_zero:
  assumes "auth_user_info authData = Some userInfo" and "auth userInfo = JNum 0"
  shows "checkAccount js_ge authData = ([], Inl (JsError ''Error'' ''Authentication failed: Invalid username or password''))"
  using assms by (simp add: checkAccount_def bind_traced_def throw_def)

lemma fetchAllFamilies_auth_zero:
  assumes "resp_auth srv = Inr authData" and "auth_user_info authData = Some userInfo" and "auth userInfo = JNum 0"
  shows "fetchAllFamilies P gen js_ge srv creds
           = ([Request None], Inl (JsError ''Error'' ''Authentication failed: Invalid username or password''))"
  unfolding fetchAllFamilies_def Let_def
  by (simp add: bind_traced_def request_def assms(1) checkAccount_auth_zero [OF assms(2,3)])

lemma fetchXtreamChannels_auth_zero:
  assumes "resp_auth srv = Inr authData" and "auth_user_info authData = Some userInfo" and "auth userInfo = JNum 0"
  shows "fetchXtreamChannels P gen js_ge srv creds
           = ([Request None], Inl (JsError ''Error'' ''Authentication failed: Invalid username or password''))"
  unfolding fetchXtreamChannels_def
  by (simp add: fetchAllFamilies_auth_zero [OF assms] auth_message_no_quota)

text \<open>
  Claim C7. When the authentication response carries \<^verbatim>\<open>user_info.auth = 0\<close>,
  \<^verbatim>\<open>fetchXtreamChannels\<close> sends the authentication request and nothing else (no category
  or stream request of any family, no progress callback), and throws the error
  "Authentication failed: Invalid username or password" instead of returning channels;
  the import handler then leaves the persistent store as it was and shows that message.
\<close>

theorem auth_zero_fails_fast:
  assumes "resp_auth srv = Inr authData" and "auth_user_info authData = Some userInfo" and "auth userInfo = JNum 0"
  shows "fetchXtreamChannels P gen js_ge srv creds
           = ([Request None], Inl (JsError ''Error'' ''Authentication failed: Invalid username or password''))
       \<and> fst (handleImportXtream P gen js_ge srv newId now form st db) = db
       \<and> (form_xtreamUrl form \<noteq> [] \<and> form_xtreamUser form \<noteq> [] \<and> form_xtreamPass form \<noteq> []
            \<longrightarrow> snd (handleImportXtream P gen js_ge srv newId now form st db)
                  = Some ''Authentication failed: Invalid username or password'')"
  by (simp add: handleImportXtream_def fetchXtreamChannels_auth_zero [OF assms] auth_message_no_network)

theorem auth_zero_fails_fast_witness:
  "resp_auth rejectingServer = Inr rejectedAccount
   \<and> map_option auth (auth_user_info rejectedAccount) = Some (JNum 0)
   \<and> fetchXtreamChannels ''/api/proxy/stream'' string_of_nat (\<lambda>a b. False) rejectingServer
         \<lparr>cred_url = ''http://h/'', cred_username = ''u'', cred_password = ''p''\<rparr>
       = ([Request None], Inl (JsError ''Error'' ''Authentication failed: Invalid username or password''))
   \<and> handleImportXtream ''/api/proxy/stream'' string_of_nat (\<lambda>a b. False) rejectingServer ''new'' 5 exampleForm
         \<lparr>playlists = [], activePlaylistId = None\<rparr> oldDatabase
       = (oldDatabase, Some ''Authentication failed: Invalid username or password'')
   \<and> fst (fetchXtreamChannels ''/api/proxy/stream'' string_of_nat (\<lambda>a b. False)
             (rejectingServer\<lparr>resp_auth := Inr (rejectedAccount\<lparr>auth_user_info := None\<rparr>)\<rparr>)
             \<lparr>cred_url = ''http://h/'', cred_username = ''u'', cred_password = ''p''\<rparr>)
       = [Request None, Progress ''Fetching live channels...'', Request (Some ''get_live_categories''),
          Request (Some ''get_live_streams''), Progress ''Found 1 live channels. Fetching movies...'',
          Request (Some ''get_vod_categories''), Request (Some ''get_vod_streams''),
          Progress ''Found 1 channels. Fetching series...'',
          Request (Some ''get_series_categories''), Request (Some ''get_series'')]"
proof -
  have h1: "resp_auth rejectingServer = Inr rejectedAccount"
    by (simp add: rejectingServer_def)
  have h2: "auth_user_info rejectedAccount
      = Some \<lparr>auth = JNum 0, status = JUndefined, max_connections = JUndefined, active_cons = JUndefined\<rparr>"
    by (simp add: rejectedAccount_def)
  have h3: "auth \<lparr>auth = JNum 0, status = JUndefined, max_connections = JUndefined, active_cons = JUndefined\<rparr> = JNum 0"
    by simp
  have f: "form_xtreamUrl exampleForm \<noteq> [] \<and> form_xtreamUser exampleForm \<noteq> [] \<and> form_xtreamPass exampleForm \<noteq> []"
    by (simp add: exampleForm_def)
  have other: "fst (fetchXtreamChannels ''/api/proxy/stream'' string_of_nat (\<lambda>a b. False)
             (rejectingServer\<lparr>resp_auth := Inr (rejectedAccount\<lparr>auth_user_info := None\<rparr>)\<rparr>)
             \<lparr>cred_url = ''http://h/'', cred_username = ''u'', cred_password = ''p''\<rparr>)
       = [Request None, Progress ''Fetching live channels...'', Request (Some ''get_live_categories''),
          Request (Some ''get_live_streams''), Progress ''Found 1 live channels. Fetching movies...'',
          Request (Some ''get_vod_categories''), Request (Some ''get_vod_streams''),
          Progress ''Found 1 channels. Fetching series...'',
          Request (Some ''get_series_categories''), Request (Some ''get_series'')]"
    by code_simp
  note inst = auth_zero_fails_fast [OF h1 h2 h3, of "''/api/proxy/stream''" string_of_nat "\<lambda>a b. False"
      _ "''new''" 5 exampleForm "\<lparr>playlists = [], activePlaylistId = None\<rparr>" oldDatabase]
  from inst f have "handleImportXtream ''/api/proxy/stream'' string_of_nat (\<lambda>a b. False) rejectingServer ''new'' 5 exampleForm
         \<lparr>playlists = [], activePlaylistId = None\<rparr> oldDatabase
       = (oldDatabase, Some ''Authentication failed: Invalid username or password'')"
    by (metis prod.collapse)
  with inst h1 h2 other show ?thesis
    by simp
qed

subsection \<open>Application store: refresh and the update import\<close>

lemma favoriteChannelIds_Nil: "favoriteChannelIds [] = {}"
  by (simp add: favoriteChannelIds_def)

lemma channelsWithFavorites_Nil:
  "channelsWithFavorites [] fresh = map (\<lambda>c. c\<lparr>isFavorite := Some False\<rparr>) fresh"
  by (simp add: channelsWithFavorites_def favoriteChannelIds_Nil)

lemma refreshPlaylists_channels:
  "p \<in> set (playlists (refreshPlaylists (Inr dbPlaylists) st)) \<Longrightarrow> channels p = []"
  by (auto simp: refreshPlaylists_def Let_def fromMeta_def)

lemma existingPlaylist_mem: "existingPlaylist st i = Some ep \<Longrightarrow> ep \<in> set (playlists st)"
  by (auto simp: existingPlaylist_def find_Some_iff)

theorem refresh_failure_keeps_channels:
  "refreshPlaylists (Inl (JsError ''InvalidStateError'' ''The database connection is closing.'')) loadedAppState
     = loadedAppState
   \<and> map channels (playlists (refreshPlaylists (Inl (JsError ''InvalidStateError'' ''The database connection is closing.''))
                                   loadedAppState)) = [[favoriteA]]
   \<and> map_option (\<lambda>ep. map isFavorite (channelsWithFavorites (channels ep) [plainChannel ''9'' ''A'' ''X'' Live]))
        (existingPlaylist (refreshPlaylists (Inl (JsError ''InvalidStateError'' ''The database connection is closing.''))
                              loadedAppState) ''p'')
       = Some [Some True]"
  by code_simp

text \<open>
  Claim C10, amended. After a \<^verbatim>\<open>refreshPlaylists\<close> whose read of the persistent store
  succeeded, every playlist of the in-memory store has an empty channel list; the set of
  favorited URLs an update import computes from such a playlist is empty and every fresh
  channel is stored with the favorite flag false. When the read throws, the in-memory
  store is left as it was.
\<close>

theorem refreshed_playlists_have_no_channels:
  "(\<forall>p \<in> set (playlists (refreshPlaylists (Inr dbPlaylists) st)). channels p = [])
   \<and> (existingPlaylist (refreshPlaylists (Inr dbPlaylists) st) i = Some ep
        \<longrightarrow> favoriteChannelIds (channels ep) = {}
            \<and> channelsWithFavorites (channels ep) fresh = map (\<lambda>c. c\<lparr>isFavorite := Some False\<rparr>) fresh
            \<and> (\<forall>c \<in> set (channelsWithFavorites (channels ep) fresh). isFavorite c = Some False))
   \<and> refreshPlaylists (Inl e) st = st"
proof (intro conjI impI ballI)
  fix p assume "p \<in> set (playlists (refreshPlaylists (Inr dbPlaylists) st))"
  then show "channels p = []" by (rule refreshPlaylists_channels)
next
  assume a: "existingPlaylist (refreshPlaylists (Inr dbPlaylists) st) i = Some ep"
  then have n: "channels ep = []"
    by (intro refreshPlaylists_channels [of ep dbPlaylists st] existingPlaylist_mem)
  show "favoriteChannelIds (channels ep) = {}"
    by (simp add: n favoriteChannelIds_Nil)
  show "channelsWithFavorites (channels ep) fresh = map (\<lambda>c. c\<lparr>isFavorite := Some False\<rparr>) fresh"
    by (simp add: n channelsWithFavorites_Nil)
  fix c assume "c \<in> set (channelsWithFavorites (channels ep) fresh)"
  then show "isFavorite c = Some False"
    by (auto simp: n channelsWithFavorites_Nil)
next
  show "refreshPlaylists (Inl e) st = st"
    by (simp add: refreshPlaylists_def)
qed

theorem refreshed_playlists_have_no_channels_witness:
  "map channels (playlists loadedAppState) = [[favoriteA]]
   \<and> map channels (playlists (refreshPlaylists (Inr [playlistMeta newPlaylist]) loadedAppState)) = [[]]
   \<and> map_option pid (existingPlaylist (refreshPlaylists (Inr [playlistMeta newPlaylist]) loadedAppState) ''p'') = Some ''p''
   \<and> map_option (\<lambda>ep. map isFavorite (channelsWithFavorites (channels ep) [plainChannel ''9'' ''A'' ''X'' Live]))
        (existingPlaylist (refreshPlaylists (Inr [playlistMeta newPlaylist]) loadedAppState) ''p'')
       = Some [Some False]"
proof -
  let ?st = "refreshPlaylists (Inr [playlistMeta newPlaylist]) loadedAppState"
  have b: "map channels (playlists loadedAppState) = [[favoriteA]]"
    by code_simp
  have e: "existingPlaylist ?st ''p'' = Some (fromMeta (playlistMeta newPlaylist))"
    by code_simp
  have i: "pid (fromMeta (playlistMeta newPlaylist)) = ''p''"
    by code_simp
  have l: "playlists ?st = [fromMeta (playlistMeta newPlaylist)]"
    by code_simp
  note inst = refreshed_playlists_have_no_channels [of "[playlistMeta newPlaylist]" loadedAppState "''p''"
      "fromMeta (playlistMeta newPlaylist)" "[plainChannel ''9'' ''A'' ''X'' Live]"]
  from inst have "\<forall>p \<in> set (playlists ?st). channels p = []"
    by blast
  then have c: "map channels (playlists ?st) = [[]]"
    by (simp add: l)
  from inst e have "channelsWithFavorites (channels (fromMeta (playlistMeta newPlaylist))) [plainChannel ''9'' ''A'' ''X'' Live]
      = map (\<lambda>c. c\<lparr>isFavorite := Some False\<rparr>) [plainChannel ''9'' ''A'' ''X'' Live]"
    by blast
  then have m: "map isFavorite (channelsWithFavorites (channels (fromMeta (playlistMeta newPlaylist)))
                  [plainChannel ''9'' ''A'' ''X'' Live]) = [Some False]"
    by simp
  show ?thesis
    using b c m by (simp add: e i)
qed

subsection \<open>Manifest rewriting\<close>

text \<open>
  Claim C8, at the input where the code departs from it: a manifest fetched from
  \<^verbatim>\<open>http://h:8080/live/a/index.m3u8\<close> whose lines are the header, two metadata lines, the
  relative segment URLs \<^verbatim>\<open>seg1.ts\<close> and \<^verbatim>\<open>seg2.m4s\<close>, and an absolute key URL. The
  rewriting routes \<^verbatim>\<open>seg1.ts\<close> and the key URL through the proxy endpoint and leaves the
  comment lines as they are, but the line \<^verbatim>\<open>seg2.m4s\<close>, a non-comment line that is a
  relative URL, passes through unchanged: a relative URL is recognised only by the
  substrings \<^verbatim>\<open>.m3u8\<close> and \<^verbatim>\<open>.ts\<close>.
\<close>

theorem relative_segment_passes_unrewritten:
  "splitOn (CHR 0x0A) [] exampleManifest
     = [''#EXTM3U'', ''#EXTINF:4,'', ''seg1.ts'', ''#EXTINF:4,'', ''seg2.m4s'', ''https://c/x.key'']
   \<and> splitOn (CHR 0x0A) [] (rewriteManifest ''/api/proxy/stream'' exampleUrl exampleManifest)
     = [''#EXTM3U'', ''#EXTINF:4,'',
        ''/api/proxy/stream?url=http%3A%2F%2Fh%3A8080%2Flive%2Fa%2Fseg1.ts'',
        ''#EXTINF:4,'', ''seg2.m4s'',
        ''/api/proxy/stream?url=https%3A%2F%2Fc%2Fx.key'']
   \<and> rewriteLine ''/api/proxy/stream'' exampleUrl ''seg2.m4s'' = ''seg2.m4s''
   \<and> proxyBody ''application/vnd.apple.mpegurl'' exampleUrl exampleManifest
     = rewriteManifest ''/api/proxy/stream'' exampleUrl exampleManifest"
  by code_simp

subsection \<open>Pagination\<close>




lemma loadMoreBegin_while_loading:
  "loadingRef st \<Longrightarrow> loadMoreBegin env db st = (st, None)"
  by (simp add: loadMoreBegin_def split: option.split)













































end
